theory Spec2Isabelle
  imports Main "HOL-Library.Word"
begin

section \<open>The encrypted ledger (contracts/GeoChainFHE.sol)\<close>

text \<open>
  Solidity types: \<open>address\<close> is a 160-bit word, \<open>uint256\<close> and \<open>bytes32\<close> are 256-bit
  words, \<open>uint32\<close> is a 32-bit word. An \<open>euint32\<close> (and an \<open>externalEuint32\<close>) is a
  \<open>bytes32\<close> handle; the all-zero handle is the default value of an unset mapping slot.
\<close>

type_synonym address = "160 word"
type_synonym uint256 = "256 word"
type_synonym uint32 = "32 word"
type_synonym bytes32 = "256 word"
type_synonym euint32 = "256 word"
type_synonym bytes = "8 word list"

text \<open>
  The FHE library (\<open>@fhevm/solidity/lib/FHE.sol\<close>) is imported by the contract and is not
  part of the repository. It is taken as a parameter:
  \<^item> \<open>fromExternal\<close> verifies the input proof and yields the internal handle, or fails
    (the call reverts);
  \<^item> \<open>fhe_add\<close> is the homomorphic addition of two handles;
  \<^item> \<open>reveal\<close> is the cleartext under a handle, what a decryption by an authorised
    party returns. The cleartext of an \<open>euint32\<close> is a 32-bit unsigned integer.
\<close>

record fhe =
  fromExternal :: "bytes32 \<Rightarrow> bytes \<Rightarrow> euint32 option"
  fhe_add :: "euint32 \<Rightarrow> euint32 \<Rightarrow> euint32"
  reveal :: "euint32 \<Rightarrow> uint32"

text \<open>
  The contract the code relies on: addition is homomorphic for the 32-bit cleartexts, and
  an uninitialised (all-zero) operand counts as an encryption of zero.
\<close>

definition fhe_homomorphic :: "fhe \<Rightarrow> bool" where
  "fhe_homomorphic F \<longleftrightarrow>
     reveal F 0 = 0 \<and> (\<forall>a b. reveal F (fhe_add F a b) = reveal F a + reveal F b)"

record PlayerStats =
  numGames :: uint256
  totalPublicScore :: uint256
  maxSinglePublicScore :: uint256
  lastPlayedAt :: uint256

definition zeroStats :: PlayerStats where
  "zeroStats = \<lparr>numGames = 0, totalPublicScore = 0, maxSinglePublicScore = 0, lastPlayedAt = 0\<rparr>"

text \<open>Contract storage. Every mapping is total, with the zero value where nothing was stored.\<close>

record ledger =
  nextResultId :: uint256
  encryptedTotalScoreByPlayer :: "address \<Rightarrow> euint32"
  encryptedScoreByResultId :: "uint256 \<Rightarrow> euint32"
  playerStats :: "address \<Rightarrow> PlayerStats"
  badgeClaimed :: "uint256 \<Rightarrow> address \<Rightarrow> bool"

text \<open>Storage after deployment: \<open>nextResultId = 1\<close>, everything else zero.\<close>

definition deployed :: ledger where
  "deployed = \<lparr>nextResultId = 1,
               encryptedTotalScoreByPlayer = (\<lambda>_. 0),
               encryptedScoreByResultId = (\<lambda>_. 0),
               playerStats = (\<lambda>_. zeroStats),
               badgeClaimed = (\<lambda>_ _. False)\<rparr>"

text \<open>
  What a call does outside the contract's own storage: the events it emits and the
  decryption rights it grants in the access-control list of the FHE system.
\<close>

datatype effect =
    AllowThis euint32
  | Allow euint32 address
  | ResultSubmitted uint256 address bytes32 string uint256 uint256
  | BadgeClaimed address uint256 uint256
  | QuestionPoolUpdated string uint256

text \<open>
  A reverted call: the two \<open>require\<close> messages and the \<open>revert\<close> of \<open>claimBadge\<close>, a
  failed input proof in \<open>FHE.fromExternal\<close>, and the arithmetic panic of checked
  \<open>uint256\<close> arithmetic (Solidity 0.8).
\<close>

datatype revert = AlreadyClaimed | UnknownBadge | ConditionsNotMet | ProofInvalid | Panic

text \<open>Checked \<open>uint256\<close> addition: panics on overflow.\<close>

definition checked_add :: "uint256 \<Rightarrow> uint256 \<Rightarrow> uint256 option" where
  "checked_add a b = (if unat a + unat b < 2 ^ 256 then Some (a + b) else None)"

text \<open>
  \<open>submitResult\<close>, for the caller \<open>sender\<close> at block time \<open>now\<close>. The increment
  \<open>nextResultId++\<close> is checked; the statistics are updated in an \<open>unchecked\<close> block, so
  they wrap around.
\<close>

definition submitResult ::
  "fhe \<Rightarrow> address \<Rightarrow> uint256 \<Rightarrow> bytes32 \<Rightarrow> bytes \<Rightarrow> bytes32 \<Rightarrow> string \<Rightarrow> uint32 \<Rightarrow> ledger
    \<Rightarrow> revert + (uint256 \<times> ledger \<times> effect list)" where
  "submitResult F sender now scoreExt inputProof resultHash resultCID scorePublic st =
     (case fromExternal F scoreExt inputProof of
        None \<Rightarrow> Inl ProofInvalid
      | Some score \<Rightarrow>
          let currentTotal = encryptedTotalScoreByPlayer st sender;
              newTotal = fhe_add F currentTotal score;
              resultId = nextResultId st
          in (case checked_add resultId 1 of
                None \<Rightarrow> Inl Panic
              | Some next \<Rightarrow>
                  let s = playerStats st sender;
                      s1 = s\<lparr>numGames := numGames s + 1,
                             totalPublicScore := totalPublicScore s + ucast scorePublic\<rparr>;
                      s2 = (if ucast scorePublic > maxSinglePublicScore s1
                            then s1\<lparr>maxSinglePublicScore := ucast scorePublic\<rparr> else s1);
                      s3 = s2\<lparr>lastPlayedAt := now\<rparr>
                  in Inr (resultId,
                          st\<lparr>nextResultId := next,
                             encryptedTotalScoreByPlayer :=
                               (encryptedTotalScoreByPlayer st)(sender := newTotal),
                             encryptedScoreByResultId :=
                               (encryptedScoreByResultId st)(resultId := score),
                             playerStats := (playerStats st)(sender := s3)\<rparr>,
                          [AllowThis newTotal, Allow newTotal sender,
                           AllowThis score, Allow score sender,
                           ResultSubmitted resultId sender resultHash resultCID
                             (ucast scorePublic) now])))"

definition getEncryptedTotalScore :: "ledger \<Rightarrow> address \<Rightarrow> euint32" where
  "getEncryptedTotalScore st player = encryptedTotalScoreByPlayer st player"

definition getMyEncryptedTotalScore :: "ledger \<Rightarrow> address \<Rightarrow> euint32" where
  "getMyEncryptedTotalScore st sender = encryptedTotalScoreByPlayer st sender"

definition getEncryptedResultScore :: "ledger \<Rightarrow> uint256 \<Rightarrow> euint32" where
  "getEncryptedResultScore st i = encryptedScoreByResultId st i"

definition getPlayerStats :: "ledger \<Rightarrow> address \<Rightarrow> uint256 \<times> uint256 \<times> uint256 \<times> uint256" where
  "getPlayerStats st player =
     (let s = playerStats st player
      in (numGames s, totalPublicScore s, maxSinglePublicScore s, lastPlayedAt s))"

text \<open>The time units \<open>7 days\<close> and \<open>1 days\<close>, in seconds.\<close>

definition days7 :: uint256 where "days7 = 604800"
definition days1 :: uint256 where "days1 = 86400"

text \<open>
  The condition \<open>ok\<close> of \<open>claimBadge\<close>: \<open>Inl UnknownBadge\<close> for the final \<open>revert\<close>,
  \<open>Inl Panic\<close> where the checked addition of the time window overflows. In badge 4 the
  addition is evaluated only when \<open>numGames >= 3\<close> holds (\<open>&&\<close> short-circuits).
\<close>

definition badge_ok :: "uint256 \<Rightarrow> PlayerStats \<Rightarrow> uint256 \<Rightarrow> revert + bool" where
  "badge_ok badgeId s now =
     (if badgeId = 1 then Inr (numGames s \<ge> 1)
      else if badgeId = 2 then Inr (totalPublicScore s \<ge> 10)
      else if badgeId = 3 then Inr (maxSinglePublicScore s \<ge> 20)
      else if badgeId = 4 then
        (if numGames s \<ge> 3
         then (case checked_add (lastPlayedAt s) days7 of
                 None \<Rightarrow> Inl Panic | Some t \<Rightarrow> Inr (t \<ge> now))
         else Inr False)
      else if badgeId = 5 then
        (case checked_add (lastPlayedAt s) days1 of
           None \<Rightarrow> Inl Panic | Some t \<Rightarrow> Inr (t \<ge> now))
      else if badgeId = 6 then Inr (numGames s \<ge> 10)
      else Inl UnknownBadge)"

definition claimBadge ::
  "address \<Rightarrow> uint256 \<Rightarrow> uint256 \<Rightarrow> ledger \<Rightarrow> revert + (ledger \<times> effect list)" where
  "claimBadge sender now badgeId st =
     (if badgeClaimed st badgeId sender then Inl AlreadyClaimed
      else (case badge_ok badgeId (playerStats st sender) now of
              Inl e \<Rightarrow> Inl e
            | Inr ok \<Rightarrow>
                if \<not> ok then Inl ConditionsNotMet
                else Inr (st\<lparr>badgeClaimed :=
                               (badgeClaimed st)(badgeId := (badgeClaimed st badgeId)(sender := True))\<rparr>,
                          [BadgeClaimed sender badgeId now])))"

definition updateQuestionPool ::
  "address \<Rightarrow> string \<Rightarrow> uint256 \<Rightarrow> ledger \<Rightarrow> revert + (ledger \<times> effect list)" where
  "updateQuestionPool sender poolCID version st = Inr (st, [QuestionPoolUpdated poolCID version])"

subsection \<open>Transactions\<close>

text \<open>
  The state-changing entry points of the contract. A transaction carries its sender and
  the block time; a reverted transaction leaves the storage as it was.
\<close>

datatype call =
    SubmitResult bytes32 bytes bytes32 string uint32
  | ClaimBadge uint256
  | UpdateQuestionPool string uint256

datatype tx = Tx (tx_sender: address) (tx_time: uint256) (tx_call: call)

fun transact :: "fhe \<Rightarrow> tx \<Rightarrow> ledger \<Rightarrow> revert + (ledger \<times> effect list)" where
  "transact F (Tx sender now (SubmitResult ext ipf h cid pub)) st =
     (case submitResult F sender now ext ipf h cid pub st of
        Inl e \<Rightarrow> Inl e | Inr (_, st', efs) \<Rightarrow> Inr (st', efs))"
| "transact F (Tx sender now (ClaimBadge b)) st = claimBadge sender now b st"
| "transact F (Tx sender now (UpdateQuestionPool cid v)) st = updateQuestionPool sender cid v st"

definition apply_tx :: "fhe \<Rightarrow> ledger \<Rightarrow> tx \<Rightarrow> ledger" where
  "apply_tx F st t = (case transact F t st of Inl _ \<Rightarrow> st | Inr (st', _) \<Rightarrow> st')"

definition exec :: "fhe \<Rightarrow> tx list \<Rightarrow> ledger \<Rightarrow> ledger" where
  "exec F ts st = foldl (apply_tx F) st ts"

text \<open>
  The scores a participant has submitted in a run: the cleartexts of the accepted
  \<open>submitResult\<close> calls of \<open>p\<close>, in order (\<open>accepted\<close> is the contribution of one
  transaction: its score if it is a \<open>submitResult\<close> of \<open>p\<close> that does not revert).
\<close>

definition accepted :: "fhe \<Rightarrow> address \<Rightarrow> tx \<Rightarrow> ledger \<Rightarrow> uint32 list" where
  "accepted F p t st =
     (case t of
        Tx sender now (SubmitResult ext ipf h cid pub) \<Rightarrow>
          (case (fromExternal F ext ipf, submitResult F sender now ext ipf h cid pub st) of
             (Some score, Inr _) \<Rightarrow> (if sender = p then [reveal F score] else [])
           | _ \<Rightarrow> [])
      | _ \<Rightarrow> [])"

fun submitted :: "fhe \<Rightarrow> address \<Rightarrow> tx list \<Rightarrow> ledger \<Rightarrow> uint32 list" where
  "submitted F p [] st = []"
| "submitted F p (t # ts) st = accepted F p t st @ submitted F p ts (apply_tx F st t)"

text \<open>
  The badge table of the specification, over unbounded integers: the predicate of badge
  \<open>b\<close> on the statistics \<open>s\<close> at time \<open>now\<close>.
\<close>

definition spec_badge_predicate :: "uint256 \<Rightarrow> PlayerStats \<Rightarrow> uint256 \<Rightarrow> bool" where
  "spec_badge_predicate b s now \<longleftrightarrow>
     (b = 1 \<and> unat (numGames s) \<ge> 1) \<or>
     (b = 2 \<and> unat (totalPublicScore s) \<ge> 10) \<or>
     (b = 3 \<and> unat (maxSinglePublicScore s) \<ge> 20) \<or>
     (b = 4 \<and> unat (numGames s) \<ge> 3 \<and> unat (lastPlayedAt s) + 604800 \<ge> unat now) \<or>
     (b = 5 \<and> unat (lastPlayedAt s) + 86400 \<ge> unat now) \<or>
     (b = 6 \<and> unat (numGames s) \<ge> 10)"

text \<open>
  A stand-in for the FHE system, used to run the contract on concrete inputs: a handle
  carries its cleartext in its low 32 bits, an input is accepted when its proof is not
  empty, and a computed handle has bit 32 set, so that it is never the zero handle.
\<close>

definition mock_fhe :: fhe where
  "mock_fhe = \<lparr>fromExternal = (\<lambda>ext ipf. if ipf = [] then None else Some ext),
                fhe_add = (\<lambda>a b. or (ucast ((ucast a :: uint32) + ucast b)) (2 ^ 32)),
                reveal = (\<lambda>h. ucast h)\<rparr>"

text \<open>A participant and a run of three games, for concrete evaluation.\<close>

definition alice :: address where
  "alice = 0xA11CE"

definition three_games :: "tx list" where
  "three_games =
     [Tx alice 100 (SubmitResult 5 [1] 0 ''cid1'' 5),
      Tx alice 200 (SubmitResult 7 [1] 0 ''cid2'' 7),
      Tx alice 300 (SubmitResult 9 [1] 0 ''cid3'' 9)]"

definition claim4 :: tx where
  "claim4 = Tx alice 400 (ClaimBadge 4)"

definition overflowing_games :: "tx list" where
  "overflowing_games =
     [Tx alice 100 (SubmitResult 4294967295 [1] 0 ''cid1'' 0),
      Tx alice 200 (SubmitResult 1 [1] 0 ''cid2'' 0)]"

section \<open>The operation coordinator (frontend/src/web3/hooks/useGeoChain.ts)\<close>

text \<open>
  The hook runs on a single thread: between two suspension points (\<open>await\<close>, \<open>.then\<close>,
  a timer) a piece of code runs to its end without interruption. Each such piece is a
  function from the coordinator's state to the new state, together with the external
  calls it issues; the answers of the external calls are inputs of the piece that runs when
  they arrive.
\<close>

subsection \<open>Data\<close>

datatype signer = Signer (signer_address: string)

text \<open>An entry of the deployment table \<open>GeoChainAddresses\<close>, and the memoised \<open>contract\<close>.\<close>

record entry =
  entry_address :: "string option"
  entry_chainId :: "nat option"

record contract_info =
  c_address :: "string option"
  c_chainId :: "nat option"

text \<open>
  The parameters of the hook as one render sees them; the callbacks created in that render
  close over these values. The table \<open>GeoChainAddresses\<close> is a module of the repository
  that is not among the sources, so it is a parameter too.
\<close>

record params =
  addresses :: "nat \<Rightarrow> entry option"
  fhevmInstance :: "nat option"
  chainId :: "nat option"
  ethersSigner :: "signer option"
  ethersReadonlyProvider :: "nat option"

text \<open>
  \<open>sameChain\<close> and \<open>sameSigner\<close> are references to functions supplied by the caller of
  the hook; \<open>.current\<close> is read when a check runs, so they are the functions current at
  that moment.
\<close>

record live =
  sameChain :: "nat option \<Rightarrow> bool"
  sameSigner :: "signer option \<Rightarrow> bool"

text \<open>JavaScript truthiness of an optional string and of an optional number.\<close>

definition truthy_str :: "string option \<Rightarrow> bool" where
  "truthy_str x = (case x of None \<Rightarrow> False | Some v \<Rightarrow> v \<noteq> [])"

definition truthy_num :: "nat option \<Rightarrow> bool" where
  "truthy_num x = (case x of None \<Rightarrow> False | Some n \<Rightarrow> n \<noteq> 0)"

definition contract :: "params \<Rightarrow> contract_info" where
  "contract P =
     (if \<not> truthy_num (chainId P) then \<lparr>c_address = None, c_chainId = None\<rparr>
      else (case addresses P (the (chainId P)) of
              None \<Rightarrow> \<lparr>c_address = None, c_chainId = chainId P\<rparr>
            | Some e \<Rightarrow>
                \<lparr>c_address = entry_address e,
                 c_chainId = (case entry_chainId e of None \<Rightarrow> chainId P | Some c \<Rightarrow> Some c)\<rparr>))"

text \<open>
  The texts shown to the user, by meaning: the source sets Chinese strings, which are given
  here by the line of \<open>useGeoChain.ts\<close> that sets them.
\<close>

datatype msg =
    MsgNone                      \<comment> \<open>initial, empty\<close>
  | MsgIncomplete                \<comment> \<open>l. 81: connection information incomplete\<close>
  | MsgNoScoreYet                \<comment> \<open>l. 120: no encrypted score found\<close>
  | MsgRefreshed                 \<comment> \<open>l. 122: ciphertext refreshed, can decrypt\<close>
  | MsgRefreshFailed string      \<comment> \<open>l. 128\<close>
  | MsgWaitingForRefresh         \<comment> \<open>l. 168: refreshing, will decrypt afterwards\<close>
  | MsgDecryptInProgress         \<comment> \<open>l. 189: a decryption is in progress\<close>
  | MsgNotReady                  \<comment> \<open>l. 193: FHEVM or signer not ready\<close>
  | MsgNoCiphertext              \<comment> \<open>l. 197: no ciphertext to decrypt\<close>
  | MsgDecryptStart              \<comment> \<open>l. 208\<close>
  | MsgNoSignature               \<comment> \<open>l. 225: cannot produce a decryption signature\<close>
  | MsgStaleRequest              \<comment> \<open>l. 229: stale decryption request ignored\<close>
  | MsgCallingUserDecrypt        \<comment> \<open>l. 232\<close>
  | MsgStaleResult               \<comment> \<open>l. 244: stale decryption result ignored\<close>
  | MsgDecryptDone               \<comment> \<open>l. 249\<close>
  | MsgDecryptFailed string      \<comment> \<open>l. 251\<close>
  | MsgPreparing                 \<comment> \<open>l. 317: preparing to encrypt the score\<close>
  | MsgStaleSubmit               \<comment> \<open>l. 333: stale submission ignored\<close>
  | MsgSendingTx                 \<comment> \<open>l. 336\<close>
  | MsgWaitingConfirm string     \<comment> \<open>l. 344, with the transaction hash\<close>
  | MsgSubmitDone "nat option"   \<comment> \<open>l. 347, with the receipt status\<close>
  | MsgSubmitFailed string       \<comment> \<open>l. 351\<close>

text \<open>The React state of the hook and its mutable references.\<close>

record coord =
  message :: msg
  handle :: "string option"
  clear :: "nat option"
  isRefreshing :: bool
  isDecrypting :: bool
  isSubmitting :: bool
  lastTxHash :: "string option"
  isRefreshingRef :: bool
  isDecryptingRef :: bool
  isSubmittingRef :: bool
  geoRef :: contract_info
  initRefreshKeyRef :: string
  lastRefreshKeyRef :: string
  lastRefreshAtRef :: int

definition initial_coord :: coord where
  "initial_coord =
     \<lparr>message = MsgNone, handle = None, clear = None,
      isRefreshing = False, isDecrypting = False, isSubmitting = False, lastTxHash = None,
      isRefreshingRef = False, isDecryptingRef = False, isSubmittingRef = False,
      geoRef = \<lparr>c_address = None, c_chainId = None\<rparr>,
      initRefreshKeyRef = [], lastRefreshKeyRef = [], lastRefreshAtRef = 0\<rparr>"

text \<open>The decryption capability returned by \<open>FhevmDecryptionSignature.loadOrSign\<close>.\<close>

record capability =
  privateKey :: string
  publicKey :: string
  signature :: string
  contractAddresses :: "string list"
  userAddress :: string
  startTimestamp :: nat
  durationDays :: nat

record payload =
  score :: int
  scorePublic :: int
  resultCID :: string
  resultHash :: string

text \<open>The external calls the coordinator issues.\<close>

datatype ext_call =
    LedgerRead string string
      \<comment> \<open>\<open>getEncryptedTotalScore(player)\<close> on the contract at the address\<close>
  | LoadOrSign string signer bool
      \<comment> \<open>a capability for the contract address is requested for the signer (\<open>force\<close>)\<close>
  | UserDecrypt string string capability
      \<comment> \<open>\<open>instance.userDecrypt\<close> of the handle at the contract address\<close>
  | Delay nat
  | EncryptInput string string int
      \<comment> \<open>\<open>createEncryptedInput(contract, user)\<close>, \<open>add32(score)\<close>, \<open>encrypt()\<close>\<close>
  | SendSubmitResult string signer string string nat
      \<comment> \<open>the transaction \<open>submitResult\<close>: the result hash, the CID and the public score\<close>
  | WaitForReceipt string

text \<open>
  How an operation ends without doing its work. \<open>decryptEncryptedTotal\<close> reports these
  through \<open>message\<close> and returns; \<open>decryptHandle\<close> and \<open>submitCore\<close> throw.
\<close>

datatype failure =
    AlreadyInProgress
  | NotReady
  | NoCiphertext
  | NoSignature
  | Stale
  | External string

subsection \<open>Handles\<close>

text \<open>The test \<open>/^0x0+$/i\<close>: \<open>0x\<close> or \<open>0X\<close>, then one or more \<open>0\<close>, and nothing else.\<close>

fun isZeroHandle :: "string \<Rightarrow> bool" where
  "isZeroHandle (a # b # c # rest) \<longleftrightarrow>
     a = CHR ''0'' \<and> (b = CHR ''x'' \<or> b = CHR ''X'') \<and> c = CHR ''0'' \<and>
     list_all (\<lambda>d. d = CHR ''0'') rest"
| "isZeroHandle _ \<longleftrightarrow> False"

text \<open>\<open>BigInt.prototype.toString(16)\<close>.\<close>

definition hexDigit :: "nat \<Rightarrow> char" where
  "hexDigit d = ''0123456789abcdef'' ! d"

fun toString16 :: "nat \<Rightarrow> string" where
  "toString16 n = (if n < 16 then [hexDigit n] else toString16 (n div 16) @ [hexDigit (n mod 16)])"

declare toString16.simps [simp del]

text \<open>What the read returns: a \<open>bigint\<close>, or a value that \<open>String(value)\<close> turns into text.\<close>

datatype raw = BigInt nat | Text string

definition handleStr :: "raw \<Rightarrow> string" where
  "handleStr v = (case v of BigInt n \<Rightarrow> ''0x'' @ toString16 n | Text t \<Rightarrow> t)"

subsection \<open>refreshEncryptedTotal\<close>

text \<open>What a refresh keeps while its read is in flight.\<close>

record refresh_ctx =
  r_chainId :: "nat option"
  r_address :: string
  r_signer :: signer

definition refreshKey :: "string \<Rightarrow> signer \<Rightarrow> string" where
  "refreshKey a sg = a @ '':'' @ signer_address sg"

text \<open>
  The synchronous part (l. 78-105) at time \<open>now\<close> (\<open>Date.now()\<close>): the new state, the
  calls issued, and the context of the read if one was issued.
\<close>

definition refreshEncryptedTotal ::
  "params \<Rightarrow> int \<Rightarrow> coord \<Rightarrow> coord \<times> ext_call list \<times> refresh_ctx option" where
  "refreshEncryptedTotal P now s =
     (if isRefreshingRef s then (s, [], None)
      else if \<not> truthy_str (c_address (contract P)) \<or> ethersReadonlyProvider P = None
              \<or> ethersSigner P = None
      then (s\<lparr>handle := None, message := MsgIncomplete\<rparr>, [], None)
      else
        let s1 = s\<lparr>isRefreshingRef := True, isRefreshing := True\<rparr>;
            thisChainId = c_chainId (contract P);
            thisAddress = the (c_address (contract P));
            thisSigner = the (ethersSigner P);
            key = refreshKey thisAddress thisSigner
        in if lastRefreshKeyRef s1 = key \<and> now - lastRefreshAtRef s1 < 2000
           then (s1\<lparr>isRefreshingRef := False, isRefreshing := False\<rparr>, [], None)
           else (s1\<lparr>lastRefreshKeyRef := key, lastRefreshAtRef := now\<rparr>,
                 [LedgerRead thisAddress (signer_address thisSigner)],
                 Some \<lparr>r_chainId = thisChainId, r_address = thisAddress, r_signer = thisSigner\<rparr>))"

definition refresh_finally :: "coord \<Rightarrow> coord" where
  "refresh_finally s = s\<lparr>isRefreshingRef := False, isRefreshing := False\<rparr>"

text \<open>The read resolves with \<open>v\<close> (l. 106-125, then l. 130-134).\<close>

definition refresh_then :: "live \<Rightarrow> refresh_ctx \<Rightarrow> raw \<Rightarrow> coord \<Rightarrow> coord" where
  "refresh_then L ctx v s =
     (let h = handleStr v;
          s1 = (if sameChain L (r_chainId ctx) \<and> Some (r_address ctx) = c_address (geoRef s)
                then s\<lparr>handle := Some h, clear := None,
                       message := (if isZeroHandle h then MsgNoScoreYet else MsgRefreshed)\<rparr>
                else s)
      in refresh_finally s1)"

text \<open>The read rejects with \<open>e\<close> (l. 126-129, then l. 130-134).\<close>

definition refresh_catch :: "string \<Rightarrow> coord \<Rightarrow> coord" where
  "refresh_catch e s = refresh_finally (s\<lparr>message := MsgRefreshFailed e\<rparr>)"

text \<open>The effect of l. 138-147, run after a render whose dependencies changed.\<close>

definition initEffect ::
  "params \<Rightarrow> int \<Rightarrow> coord \<Rightarrow> coord \<times> ext_call list \<times> refresh_ctx option" where
  "initEffect P now s =
     (if \<not> truthy_str (c_address (contract P)) \<or> ethersReadonlyProvider P = None
         \<or> ethersSigner P = None
      then (s, [], None)
      else let key = refreshKey (the (c_address (contract P))) (the (ethersSigner P))
           in if initRefreshKeyRef s = key then (s, [], None)
              else refreshEncryptedTotal P now (s\<lparr>initRefreshKeyRef := key\<rparr>))"

text \<open>A render with the parameters \<open>P\<close>: \<open>geoRef.current = contract\<close> (l. 66).\<close>

definition render :: "params \<Rightarrow> coord \<Rightarrow> coord" where
  "render P s = s\<lparr>geoRef := contract P\<rparr>"

subsection \<open>decryptEncryptedTotal\<close>

record decrypt_ctx =
  d_chainId :: "nat option"
  d_address :: string
  d_handle :: string
  d_signer :: signer
  d_force :: bool

text \<open>The entry (l. 163-168): whether the call has to wait for a refresh.\<close>

definition decrypt_enter :: "coord \<Rightarrow> coord \<times> bool" where
  "decrypt_enter s =
     (if isRefreshingRef s then (s\<lparr>message := MsgWaitingForRefresh\<rparr>, True) else (s, False))"

text \<open>
  The guards and the start of the work (l. 188-223). \<open>h\<close> is the \<open>handle\<close> the callback
  closed over, \<open>force\<close> is \<open>options?.forceSign === true\<close>.
\<close>

definition usable_handle :: "string option \<Rightarrow> bool" where
  "usable_handle h \<longleftrightarrow> truthy_str h \<and> \<not> isZeroHandle (the h)"

definition ready :: "params \<Rightarrow> bool" where
  "ready P \<longleftrightarrow> truthy_str (c_address (contract P)) \<and> fhevmInstance P \<noteq> None \<and> ethersSigner P \<noteq> None"

definition decrypt_guards ::
  "params \<Rightarrow> string option \<Rightarrow> bool \<Rightarrow> coord \<Rightarrow> coord \<times> ext_call list \<times> (failure + decrypt_ctx)" where
  "decrypt_guards P h force s =
     (if isDecryptingRef s then (s\<lparr>message := MsgDecryptInProgress\<rparr>, [], Inl AlreadyInProgress)
      else if \<not> ready P then (s\<lparr>message := MsgNotReady\<rparr>, [], Inl NotReady)
      else if \<not> usable_handle h then (s\<lparr>message := MsgNoCiphertext\<rparr>, [], Inl NoCiphertext)
      else
        let thisAddress = the (c_address (contract P));
            thisSigner = the (ethersSigner P)
        in (s\<lparr>isDecryptingRef := True, isDecrypting := True, message := MsgDecryptStart\<rparr>,
            [LoadOrSign thisAddress thisSigner force],
            Inr \<lparr>d_chainId = chainId P, d_address = thisAddress, d_handle = the h,
                 d_signer = thisSigner, d_force = force\<rparr>))"

definition decrypt_isStale :: "live \<Rightarrow> decrypt_ctx \<Rightarrow> coord \<Rightarrow> bool" where
  "decrypt_isStale L ctx s \<longleftrightarrow>
     Some (d_address ctx) \<noteq> c_address (geoRef s) \<or> \<not> sameChain L (d_chainId ctx)
     \<or> \<not> sameSigner L (Some (d_signer ctx))"

definition decrypt_finally :: "coord \<Rightarrow> coord" where
  "decrypt_finally s = s\<lparr>isDecryptingRef := False, isDecrypting := False\<rparr>"

text \<open>
  \<open>loadOrSign\<close> has answered (l. 224-242): it threw \<open>e\<close>, or returned nothing, or returned
  a capability. The last component tells whether \<open>userDecrypt\<close> was called.
\<close>

definition decrypt_after_sign ::
  "live \<Rightarrow> decrypt_ctx \<Rightarrow> string + capability option \<Rightarrow> coord
    \<Rightarrow> coord \<times> ext_call list \<times> failure option" where
  "decrypt_after_sign L ctx r s =
     (case r of
        Inl e \<Rightarrow> (decrypt_finally (s\<lparr>message := MsgDecryptFailed e\<rparr>), [], Some (External e))
      | Inr None \<Rightarrow> (decrypt_finally (s\<lparr>message := MsgNoSignature\<rparr>), [], Some NoSignature)
      | Inr (Some sg) \<Rightarrow>
          if decrypt_isStale L ctx s
          then (decrypt_finally (s\<lparr>message := MsgStaleRequest\<rparr>), [], Some Stale)
          else (s\<lparr>message := MsgCallingUserDecrypt\<rparr>,
                [UserDecrypt (d_handle ctx) (d_address ctx) sg], None))"

text \<open>\<open>userDecrypt\<close> has answered (l. 243-256).\<close>

definition decrypt_after_userDecrypt ::
  "live \<Rightarrow> decrypt_ctx \<Rightarrow> string + (string \<Rightarrow> nat option) \<Rightarrow> coord \<Rightarrow> coord \<times> failure option" where
  "decrypt_after_userDecrypt L ctx r s =
     (case r of
        Inl e \<Rightarrow> (decrypt_finally (s\<lparr>message := MsgDecryptFailed e\<rparr>), Some (External e))
      | Inr res \<Rightarrow>
          if decrypt_isStale L ctx s
          then (decrypt_finally (s\<lparr>message := MsgStaleResult\<rparr>), Some Stale)
          else (decrypt_finally (s\<lparr>clear := res (d_handle ctx), message := MsgDecryptDone\<rparr>),
                None))"

subsection \<open>decryptHandle\<close>

text \<open>
  \<open>decryptHandle\<close> (l. 261-290) reads no state and sets none, so the code that runs between
  its two suspension points cannot change what it does: it is given here as one function
  of the answers of \<open>loadOrSign\<close> and \<open>userDecrypt\<close>. The result is the value it returns
  (\<open>res[handleToDecrypt]\<close>) or what it throws.
\<close>

definition decryptHandle ::
  "params \<Rightarrow> string \<Rightarrow> bool \<Rightarrow> string + capability option \<Rightarrow> string + (string \<Rightarrow> nat option)
    \<Rightarrow> coord \<Rightarrow> coord \<times> ext_call list \<times> (failure + nat option)" where
  "decryptHandle P handleToDecrypt force sigAnswer decAnswer s =
     (if \<not> ready P then (s, [], Inl NotReady)
      else
        let a = the (c_address (contract P));
            c1 = LoadOrSign a (the (ethersSigner P)) force
        in (case sigAnswer of
              Inl e \<Rightarrow> (s, [c1], Inl (External e))
            | Inr None \<Rightarrow> (s, [c1], Inl NoSignature)
            | Inr (Some sg) \<Rightarrow>
                let c2 = UserDecrypt handleToDecrypt a sg
                in (case decAnswer of
                      Inl e \<Rightarrow> (s, [c1, c2], Inl (External e))
                    | Inr res \<Rightarrow> (s, [c1, c2], Inr (res handleToDecrypt)))))"

subsection \<open>submitCore\<close>

record submit_ctx =
  s_chainId :: "nat option"
  s_address :: string
  s_signer :: signer
  s_payload :: payload

text \<open>The entry guards and the acquisition of the lock (l. 304-317, l. 325).\<close>

definition submit_guards ::
  "params \<Rightarrow> payload \<Rightarrow> coord \<Rightarrow> coord \<times> ext_call list \<times> (failure + submit_ctx)" where
  "submit_guards P pl s =
     (if isRefreshingRef s \<or> isSubmittingRef s then (s, [], Inl AlreadyInProgress)
      else if \<not> ready P then (s, [], Inl NotReady)
      else (s\<lparr>isSubmittingRef := True, isSubmitting := True, message := MsgPreparing\<rparr>,
            [Delay 50],
            Inr \<lparr>s_chainId = chainId P, s_address = the (c_address (contract P)),
                 s_signer = the (ethersSigner P), s_payload = pl\<rparr>))"

definition submit_isStale :: "live \<Rightarrow> submit_ctx \<Rightarrow> coord \<Rightarrow> bool" where
  "submit_isStale L ctx s \<longleftrightarrow>
     Some (s_address ctx) \<noteq> c_address (geoRef s) \<or> \<not> sameChain L (s_chainId ctx)
     \<or> \<not> sameSigner L (Some (s_signer ctx))"

text \<open>The \<open>catch\<close> and \<open>finally\<close> of \<open>run\<close> (l. 350-356); the error is thrown on.\<close>

definition submit_fail :: "string \<Rightarrow> coord \<Rightarrow> coord" where
  "submit_fail e s = s\<lparr>message := MsgSubmitFailed e, isSubmittingRef := False, isSubmitting := False\<rparr>"

text \<open>
  After the delay (l. 326-331): building the encrypted input throws \<open>e\<close>, or the encryption
  is requested.
\<close>

definition submit_after_delay ::
  "submit_ctx \<Rightarrow> string option \<Rightarrow> coord \<Rightarrow> coord \<times> ext_call list \<times> failure option" where
  "submit_after_delay ctx thrown s =
     (case thrown of
        Some e \<Rightarrow> (submit_fail e s, [], Some (External e))
      | None \<Rightarrow> (s, [EncryptInput (s_address ctx) (signer_address (s_signer ctx))
                       (score (s_payload ctx))], None))"

text \<open>\<open>payload.scorePublic >>> 0\<close>.\<close>

definition toUint32 :: "int \<Rightarrow> nat" where
  "toUint32 x = nat (x mod 2 ^ 32)"

text \<open>The encryption has answered (l. 331-343).\<close>

definition submit_after_encrypt ::
  "live \<Rightarrow> submit_ctx \<Rightarrow> string option \<Rightarrow> coord \<Rightarrow> coord \<times> ext_call list \<times> failure option" where
  "submit_after_encrypt L ctx thrown s =
     (case thrown of
        Some e \<Rightarrow> (submit_fail e s, [], Some (External e))
      | None \<Rightarrow>
          if submit_isStale L ctx s
          then (submit_fail ''cancelled'' (s\<lparr>message := MsgStaleSubmit\<rparr>), [], Some Stale)
          else (s\<lparr>message := MsgSendingTx\<rparr>,
                [SendSubmitResult (s_address ctx) (s_signer ctx) (resultHash (s_payload ctx))
                   (resultCID (s_payload ctx)) (toUint32 (scorePublic (s_payload ctx)))],
                None))"

text \<open>The transaction was sent, with hash \<open>h\<close>, or sending threw (l. 344-346).\<close>

definition submit_after_send ::
  "submit_ctx \<Rightarrow> string + string \<Rightarrow> coord \<Rightarrow> coord \<times> ext_call list \<times> failure option" where
  "submit_after_send ctx r s =
     (case r of
        Inl e \<Rightarrow> (submit_fail e s, [], Some (External e))
      | Inr h \<Rightarrow> (s\<lparr>message := MsgWaitingConfirm h, lastTxHash := Some h\<rparr>,
                  [WaitForReceipt h], None))"

text \<open>
  The receipt arrived, with its status, or waiting threw (l. 347-356). On success the
  refresh of the same render is started, at time \<open>now\<close>, and the lock is released.
\<close>

definition submit_after_wait ::
  "params \<Rightarrow> int \<Rightarrow> submit_ctx \<Rightarrow> string + nat option \<Rightarrow> coord
    \<Rightarrow> coord \<times> ext_call list \<times> failure option" where
  "submit_after_wait P now ctx r s =
     (case r of
        Inl e \<Rightarrow> (submit_fail e s, [], Some (External e))
      | Inr status \<Rightarrow>
          (case refreshEncryptedTotal P now (s\<lparr>message := MsgSubmitDone status\<rparr>) of
             (s1, calls, _) \<Rightarrow>
               (s1\<lparr>isSubmittingRef := False, isSubmitting := False\<rparr>, calls, None)))"

subsection \<open>Interleaving\<close>

text \<open>
  The pieces of code that can run, in any order, while an operation is suspended. Each
  carries the values its closure holds and the answer it was resumed with.
\<close>

datatype event =
    Render params
  | RefreshCall params int
  | InitEffect params int
  | RefreshThen live refresh_ctx raw
  | RefreshCatch string
  | DecryptEnter
  | DecryptGuards params "string option" bool
  | DecryptAfterSign live decrypt_ctx "string + capability option"
  | DecryptAfterUserDecrypt live decrypt_ctx "string + (string \<Rightarrow> nat option)"
  | SubmitGuards params payload
  | SubmitAfterDelay submit_ctx "string option"
  | SubmitAfterEncrypt live submit_ctx "string option"
  | SubmitAfterSend submit_ctx "string + string"
  | SubmitAfterWait params int submit_ctx "string + nat option"

fun apply_event :: "event \<Rightarrow> coord \<Rightarrow> coord \<times> ext_call list" where
  "apply_event (Render P) s = (render P s, [])"
| "apply_event (RefreshCall P now) s =
     (case refreshEncryptedTotal P now s of (s', calls, _) \<Rightarrow> (s', calls))"
| "apply_event (InitEffect P now) s =
     (case initEffect P now s of (s', calls, _) \<Rightarrow> (s', calls))"
| "apply_event (RefreshThen L ctx v) s = (refresh_then L ctx v s, [])"
| "apply_event (RefreshCatch e) s = (refresh_catch e s, [])"
| "apply_event DecryptEnter s = (fst (decrypt_enter s), [])"
| "apply_event (DecryptGuards P h force) s =
     (case decrypt_guards P h force s of (s', calls, _) \<Rightarrow> (s', calls))"
| "apply_event (DecryptAfterSign L ctx r) s =
     (case decrypt_after_sign L ctx r s of (s', calls, _) \<Rightarrow> (s', calls))"
| "apply_event (DecryptAfterUserDecrypt L ctx r) s =
     (fst (decrypt_after_userDecrypt L ctx r s), [])"
| "apply_event (SubmitGuards P pl) s =
     (case submit_guards P pl s of (s', calls, _) \<Rightarrow> (s', calls))"
| "apply_event (SubmitAfterDelay ctx r) s =
     (case submit_after_delay ctx r s of (s', calls, _) \<Rightarrow> (s', calls))"
| "apply_event (SubmitAfterEncrypt L ctx r) s =
     (case submit_after_encrypt L ctx r s of (s', calls, _) \<Rightarrow> (s', calls))"
| "apply_event (SubmitAfterSend ctx r) s =
     (case submit_after_send ctx r s of (s', calls, _) \<Rightarrow> (s', calls))"
| "apply_event (SubmitAfterWait P now ctx r) s =
     (case submit_after_wait P now ctx r s of (s', calls, _) \<Rightarrow> (s', calls))"

fun run :: "event list \<Rightarrow> coord \<Rightarrow> coord \<times> ext_call list" where
  "run [] s = (s, [])"
| "run (e # es) s =
     (case apply_event e s of
        (s1, c1) \<Rightarrow> (case run es s1 of (s2, c2) \<Rightarrow> (s2, c1 @ c2)))"

fun is_read :: "ext_call \<Rightarrow> bool" where
  "is_read (LedgerRead _ _) = True"
| "is_read _ = False"

definition reads :: "ext_call list \<Rightarrow> nat" where
  "reads calls = length (filter is_read calls)"

subsection \<open>Waiting for a refresh\<close>

text \<open>
  The promise \<open>waitForRefresh\<close> (l. 169-185): \<open>setInterval\<close> looks at \<open>isRefreshingRef\<close>
  every 100 ms and \<open>setTimeout\<close> resolves the promise after 10000 ms, that is together with
  the 100th look. \<open>world k\<close> are the events that run in the \<open>k\<close>-th interval of 100 ms;
  \<open>n\<close> counts the looks left until the timeout. The result is the number of looks made,
  the state in which the call resumes and the calls issued meanwhile.
\<close>

definition pollIntervalMs :: nat where "pollIntervalMs = 100"
definition maxWaitMs :: nat where "maxWaitMs = 10000"

fun waitForRefresh ::
  "nat \<Rightarrow> (nat \<Rightarrow> event list) \<Rightarrow> nat \<Rightarrow> coord \<Rightarrow> nat \<times> coord \<times> ext_call list" where
  "waitForRefresh 0 world k s = (k, s, [])"
| "waitForRefresh (Suc n) world k s =
     (case run (world k) s of
        (s1, c1) \<Rightarrow>
          if \<not> isRefreshingRef s1 \<or> n = 0 then (Suc k, s1, c1)
          else (case waitForRefresh n world (Suc k) s1 of
                  (k', s2, c2) \<Rightarrow> (k', s2, c1 @ c2)))"

text \<open>
  A call of \<open>decryptEncryptedTotal\<close> up to its first request (l. 163-223): the time waited
  in ms, the state, the calls issued by the interleaved events, the calls issued by this
  call, and how the call goes on.
\<close>

definition decryptEncryptedTotal ::
  "params \<Rightarrow> string option \<Rightarrow> bool \<Rightarrow> (nat \<Rightarrow> event list) \<Rightarrow> coord
    \<Rightarrow> nat \<times> coord \<times> ext_call list \<times> ext_call list \<times> (failure + decrypt_ctx)" where
  "decryptEncryptedTotal P h force world s =
     (case decrypt_enter s of
        (s0, False) \<Rightarrow>
          (case decrypt_guards P h force s0 of (s2, mine, r) \<Rightarrow> (0, s2, [], mine, r))
      | (s0, True) \<Rightarrow>
          (case waitForRefresh (maxWaitMs div pollIntervalMs) world 0 s0 of
             (k, s1, others) \<Rightarrow>
               (case decrypt_guards P h force s1 of
                  (s2, mine, r) \<Rightarrow> (k * pollIntervalMs, s2, others, mine, r))))"


text \<open>The state in which the guards of a call of \<open>decryptEncryptedTotal\<close> run.\<close>

definition guard_state :: "(nat \<Rightarrow> event list) \<Rightarrow> coord \<Rightarrow> coord" where
  "guard_state world s =
     (case decrypt_enter s of
        (s0, False) \<Rightarrow> s0
      | (s0, True) \<Rightarrow> fst (snd (waitForRefresh (maxWaitMs div pollIntervalMs) world 0 s0)))"

subsection \<open>A whole call of submitCore\<close>

text \<open>
  What happens around one call of \<open>submitCore\<close>: the answers of its external calls, the
  events that run while it is suspended, the functions \<open>sameChain\<close> and \<open>sameSigner\<close>
  current when it checks staleness, and the time at which it starts the final refresh.
\<close>

record submit_world =
  during_delay :: "event list"
  input_thrown :: "string option"
  during_encrypt :: "event list"
  encrypt_thrown :: "string option"
  live_at_check :: live
  during_send :: "event list"
  send_answer :: "string + string"
  during_wait :: "event list"
  wait_answer :: "string + nat option"
  time_at_refresh :: int

text \<open>
  The call from entry to return (l. 303-359): the final state and either the failure the
  call throws or the transaction hash it returns.
\<close>

definition submitCore :: "params \<Rightarrow> payload \<Rightarrow> submit_world \<Rightarrow> coord \<Rightarrow> coord \<times> (failure + string)" where
  "submitCore P pl W s =
     (case submit_guards P pl s of
        (s0, _, Inl f) \<Rightarrow> (s0, Inl f)
      | (s0, _, Inr ctx) \<Rightarrow>
          (case submit_after_delay ctx (input_thrown W) (fst (run (during_delay W) s0)) of
             (s1, _, Some f) \<Rightarrow> (s1, Inl f)
           | (s1, _, None) \<Rightarrow>
               (case submit_after_encrypt (live_at_check W) ctx (encrypt_thrown W)
                       (fst (run (during_encrypt W) s1)) of
                  (s2, _, Some f) \<Rightarrow> (s2, Inl f)
                | (s2, _, None) \<Rightarrow>
                    (case submit_after_send ctx (send_answer W) (fst (run (during_send W) s2)) of
                       (s3, _, Some f) \<Rightarrow> (s3, Inl f)
                     | (s3, _, None) \<Rightarrow>
                         (case submit_after_wait P (time_at_refresh W) ctx (wait_answer W)
                                 (fst (run (during_wait W) s3)) of
                            (s4, _, Some f) \<Rightarrow> (s4, Inl f)
                          | (s4, _, None) \<Rightarrow>
                              (s4, Inr (case send_answer W of Inr h \<Rightarrow> h | Inl _ \<Rightarrow> [])))))))"

subsection \<open>Concrete sessions\<close>

text \<open>
  One deployment, two signers on the same chain, and functions \<open>sameChain\<close> and
  \<open>sameSigner\<close> that compare with the chain and the signer of the current parameters.
\<close>

definition demo_table :: "nat \<Rightarrow> entry option" where
  "demo_table n =
     (if n = 31337 then Some \<lparr>entry_address = Some ''0x5FbDB2315678afecb367f032d93F642f64180aa3'',
                               entry_chainId = Some 31337\<rparr>
      else None)"

definition signerA :: signer where "signerA = Signer ''0xA1''"
definition signerB :: signer where "signerB = Signer ''0xB2''"

definition paramsA :: params where
  "paramsA = \<lparr>addresses = demo_table, fhevmInstance = Some 1, chainId = Some 31337,
              ethersSigner = Some signerA, ethersReadonlyProvider = Some 1\<rparr>"

definition paramsB :: params where
  "paramsB = paramsA\<lparr>ethersSigner := Some signerB\<rparr>"

definition paramsLoading :: params where
  "paramsLoading = paramsA\<lparr>fhevmInstance := None\<rparr>"

definition liveOf :: "params \<Rightarrow> live" where
  "liveOf P = \<lparr>sameChain = (\<lambda>c. c = chainId P), sameSigner = (\<lambda>sg. sg = ethersSigner P)\<rparr>"

definition ctxA :: refresh_ctx where
  "ctxA = \<lparr>r_chainId = Some 31337, r_address = ''0x5FbDB2315678afecb367f032d93F642f64180aa3'',
           r_signer = signerA\<rparr>"

text \<open>
  Signer A connects and the first refresh starts; the wallet switches to signer B while
  the read is in flight. The read then answers with the handle of A.
\<close>

definition signer_switch :: "event list" where
  "signer_switch =
     [Render paramsA, InitEffect paramsA 1000,
      Render paramsB, InitEffect paramsB 1200]"

definition demo_capability :: capability where
  "demo_capability = \<lparr>privateKey = ''sk'', publicKey = ''pk'', signature = ''sig'',
                       contractAddresses = [''0x5FbDB2315678afecb367f032d93F642f64180aa3''],
                       userAddress = ''0xA1'', startTimestamp = 1700000000, durationDays = 365\<rparr>"

definition demo_payload :: payload where
  "demo_payload = \<lparr>score = 5, scorePublic = 5, resultCID = ''cid'', resultHash = ''0x00''\<rparr>"

definition demo_submit_world :: submit_world where
  "demo_submit_world =
     \<lparr>during_delay = [], input_thrown = None,
      during_encrypt = [Render paramsB], encrypt_thrown = None, live_at_check = liveOf paramsB,
      during_send = [], send_answer = Inr ''0xtx'',
      during_wait = [], wait_answer = Inr (Some 1), time_at_refresh = 5000\<rparr>"

definition ctxB :: refresh_ctx where
  "ctxB = \<lparr>r_chainId = Some 31337, r_address = ''0x5FbDB2315678afecb367f032d93F642f64180aa3'',
           r_signer = signerB\<rparr>"

text \<open>
  Between two refreshes for signer A: the first read answers, the wallet switches to
  signer B, whose refresh runs and answers, and the wallet switches back to A.
\<close>

definition switch_and_back :: "event list" where
  "switch_and_back =
     [RefreshThen (liveOf paramsA) ctxA (Text ''0xaa11''),
      Render paramsB, RefreshCall paramsB 1000500,
      RefreshThen (liveOf paramsB) ctxB (Text ''0xbb22''),
      Render paramsA]"

text \<open>
  Between two refreshes for signer A: a second refresh for A is asked for while the first
  read is in flight, the read answers, and a third refresh for A is asked for 1000 ms
  after the first.
\<close>

definition same_key_between :: "event list" where
  "same_key_between =
     [RefreshCall paramsA 1000500,
      RefreshThen (liveOf paramsA) ctxA (Text ''0xaa11''),
      RefreshCall paramsA 1001000]"

text \<open>A refresh that is still in flight after 10 s, and one that fails in the first 100 ms.\<close>

definition never_answers :: "nat \<Rightarrow> event list" where
  "never_answers k = []"


definition refreshing_coord :: coord where
  "refreshing_coord = fst (refreshEncryptedTotal paramsA 1000000 (render paramsA initial_coord))"

text \<open>An answer of \<open>userDecrypt\<close>: every handle decrypts to 0.\<close>

definition demo_decryption :: "string \<Rightarrow> nat option" where
  "demo_decryption h = Some 0"



text \<open>
  The same switch while a decryption of A's handle waits for its capability, with B's
  read answered by the zero handle.
\<close>

definition switched_while_decrypting :: coord where
  "switched_while_decrypting =
     fst (run [RefreshThen (liveOf paramsA) ctxA (Text ''0xaa11''),
               DecryptGuards paramsA (Some ''0xaa11'') False,
               Render paramsB, RefreshCall paramsB 1003000,
               RefreshThen (liveOf paramsB) ctxB (Text ''0x0'')] refreshing_coord)"

text \<open>
  An account with no submission whose FHEVM instance is still loading: the first refresh
  has stored the zero handle.
\<close>

definition loading_zero_coord :: coord where
  "loading_zero_coord =
     refresh_then (liveOf paramsLoading) ctxA (Text ''0x0'')
       (fst (refreshEncryptedTotal paramsLoading 1000000 (render paramsLoading initial_coord)))"

section \<open>Properties of the ledger\<close>

subsection \<open>Auxiliary facts\<close>

lemma mock_ucast: "(ucast (or (ucast (x::32 word) :: 256 word) (2 ^ 32)) :: 32 word) = x"
  by (rule bit_word_eqI) (simp only: bit_simps, auto)

lemma mock_fhe_homomorphic: "fhe_homomorphic mock_fhe"
  unfolding fhe_homomorphic_def mock_fhe_def
  by (simp only: fhe.simps mock_ucast) simp

lemma exec_append: "exec F (ts @ ts') st = exec F ts' (exec F ts st)"
  by (simp add: exec_def)

lemma exec_Cons: "exec F (t # ts) st = exec F ts (apply_tx F st t)"
  by (simp add: exec_def)

lemma exec_Nil: "exec F [] st = st"
  by (simp add: exec_def)

lemmas ledger_eval =
  exec_Cons exec_Nil apply_tx_def submitResult_def claimBadge_def badge_ok_def checked_add_def
  mock_fhe_def deployed_def zeroStats_def days7_def days1_def accepted_def
  getEncryptedTotalScore_def getPlayerStats_def alice_def Let_def

lemma three_games_state:
  "exec mock_fhe three_games deployed =
     \<lparr>nextResultId = 4,
      encryptedTotalScoreByPlayer = (\<lambda>_. 0)(alice := 4294967317),
      encryptedScoreByResultId = (\<lambda>_. 0)(1 := 5, 2 := 7, 3 := 9),
      playerStats = (\<lambda>_. zeroStats)(alice := \<lparr>numGames = 3, totalPublicScore = 21,
                                            maxSinglePublicScore = 9, lastPlayedAt = 300\<rparr>),
      badgeClaimed = (\<lambda>_ _. False)\<rparr>"
  by (simp add: three_games_def ledger_eval)

lemma three_games_submitted: "submitted mock_fhe alice three_games deployed = [5, 7, 9]"
  by (simp add: three_games_def ledger_eval)

lemma submitResult_badgeClaimed:
  "submitResult F sender now ext ipf h cid pub st = Inr (r, st', efs) \<Longrightarrow>
     badgeClaimed st' = badgeClaimed st"
  by (auto simp: submitResult_def Let_def split: option.splits)

lemma claimBadge_Inr:
  "claimBadge sender now b st = Inr (st', efs) \<Longrightarrow>
     \<not> badgeClaimed st b sender \<and> badge_ok b (playerStats st sender) now = Inr True \<and>
     st' = st\<lparr>badgeClaimed := (badgeClaimed st)(b := (badgeClaimed st b)(sender := True))\<rparr>"
  by (auto simp: claimBadge_def split: if_splits sum.splits)

lemma badge_ok_spec:
  "badge_ok b s now = Inr True \<Longrightarrow> spec_badge_predicate b s now"
  by (auto simp: badge_ok_def spec_badge_predicate_def checked_add_def days7_def days1_def
        word_le_nat_alt unat_word_ariths split: if_splits option.splits)

lemma badgeClaimed_apply_tx: "badgeClaimed st b p \<Longrightarrow> badgeClaimed (apply_tx F st t) b p"
proof (cases t)
  case (Tx sender now c)
  assume cl: "badgeClaimed st b p"
  show ?thesis
  proof (cases c)
    case (SubmitResult ext ipf h cid pub)
    with Tx cl show ?thesis
      by (auto simp: apply_tx_def split: sum.splits dest: submitResult_badgeClaimed)
  next
    case (ClaimBadge b')
    with Tx cl show ?thesis
      by (auto simp: apply_tx_def split: sum.splits dest!: claimBadge_Inr)
  next
    case (UpdateQuestionPool cid v)
    with Tx cl show ?thesis by (simp add: apply_tx_def updateQuestionPool_def)
  qed
qed

lemma badgeClaimed_exec: "badgeClaimed st b p \<Longrightarrow> badgeClaimed (exec F ts st) b p"
  by (induction ts arbitrary: st) (simp_all add: exec_Nil exec_Cons badgeClaimed_apply_tx)

lemma claim_transition:
  assumes "\<not> badgeClaimed st b p" and "badgeClaimed (apply_tx F st t) b p"
  shows "t = Tx p (tx_time t) (ClaimBadge b) \<and>
         spec_badge_predicate b (playerStats st p) (tx_time t)"
proof (cases t)
  case (Tx sender now c)
  show ?thesis
  proof (cases c)
    case (SubmitResult ext ipf h cid pub)
    with Tx assms show ?thesis
      by (auto simp: apply_tx_def split: sum.splits dest: submitResult_badgeClaimed)
  next
    case (ClaimBadge b')
    with Tx assms show ?thesis
      by (auto simp: apply_tx_def split: sum.splits if_splits dest!: claimBadge_Inr badge_ok_spec)
  next
    case (UpdateQuestionPool cid v)
    with Tx assms show ?thesis by (simp add: apply_tx_def updateQuestionPool_def)
  qed
qed

lemma apply_tx_total:
  assumes "fhe_homomorphic F"
  shows "reveal F (encryptedTotalScoreByPlayer (apply_tx F st t) p) =
           reveal F (encryptedTotalScoreByPlayer st p) + sum_list (accepted F p t st)"
proof (cases t)
  case (Tx sender now c)
  show ?thesis
  proof (cases c)
    case (SubmitResult ext ipf h cid pub)
    with Tx assms show ?thesis
      by (auto simp: apply_tx_def accepted_def submitResult_def Let_def fhe_homomorphic_def
            split: option.splits)
  next
    case (ClaimBadge b')
    with Tx show ?thesis
      by (auto simp: apply_tx_def accepted_def claimBadge_def split: sum.splits)
  next
    case (UpdateQuestionPool cid v)
    with Tx show ?thesis by (simp add: apply_tx_def accepted_def updateQuestionPool_def)
  qed
qed

lemma exec_total:
  assumes "fhe_homomorphic F"
  shows "reveal F (encryptedTotalScoreByPlayer (exec F ts st) p) =
           reveal F (encryptedTotalScoreByPlayer st p) + sum_list (submitted F p ts st)"
proof (induction ts arbitrary: st)
  case Nil
  show ?case by (simp add: exec_Nil)
next
  case (Cons t ts)
  show ?case
    by (simp add: exec_Cons Cons.IH apply_tx_total [OF assms] add.assoc)
qed

lemma apply_tx_games_exact:
  assumes "unat (numGames (playerStats st p)) < unat (nextResultId st)"
  shows "unat (numGames (playerStats (apply_tx F st t) p)) =
           unat (numGames (playerStats st p)) + length (accepted F p t st)
         \<and> unat (numGames (playerStats (apply_tx F st t) p)) < unat (nextResultId (apply_tx F st t))"
proof (cases t)
  case (Tx sender now c)
  show ?thesis
  proof (cases c)
    case (SubmitResult ext ipf h cid pub)
    show ?thesis
    proof (cases "submitResult F sender now ext ipf h cid pub st")
      case (Inl e)
      with Tx SubmitResult assms show ?thesis
        by (auto simp: apply_tx_def accepted_def split: option.splits)
    next
      case (Inr res)
      then obtain sc where sc: "fromExternal F ext ipf = Some sc"
        and nov: "unat (nextResultId st) + unat (1 :: uint256) < 2 ^ 256"
        by (auto simp: submitResult_def Let_def checked_add_def split: option.splits if_splits)
      from nov have nx: "unat (nextResultId st + 1) = unat (nextResultId st) + 1"
        by (simp add: unat_add_lem [THEN iffD1])
      from nov assms have "unat (numGames (playerStats st p)) + unat (1 :: uint256) < 2 ^ 256"
        by simp
      then have ng: "unat (numGames (playerStats st p) + 1) = unat (numGames (playerStats st p)) + 1"
        by (simp add: unat_add_lem [THEN iffD1])
      from Inr sc nov have st': "apply_tx F st t =
          st\<lparr>nextResultId := nextResultId st + 1,
             encryptedTotalScoreByPlayer :=
               (encryptedTotalScoreByPlayer st)(sender := fhe_add F (encryptedTotalScoreByPlayer st sender) sc),
             encryptedScoreByResultId := (encryptedScoreByResultId st)(nextResultId st := sc),
             playerStats := (playerStats st)(sender :=
               (if ucast pub > maxSinglePublicScore (playerStats st sender)
                then (playerStats st sender)\<lparr>numGames := numGames (playerStats st sender) + 1,
                       totalPublicScore := totalPublicScore (playerStats st sender) + ucast pub,
                       maxSinglePublicScore := ucast pub\<rparr>
                else (playerStats st sender)\<lparr>numGames := numGames (playerStats st sender) + 1,
                       totalPublicScore := totalPublicScore (playerStats st sender) + ucast pub\<rparr>)
               \<lparr>lastPlayedAt := now\<rparr>)\<rparr>"
        by (auto simp: Tx SubmitResult apply_tx_def submitResult_def Let_def checked_add_def)
      have acc: "accepted F p t st = (if sender = p then [reveal F sc] else [])"
        using Inr sc by (simp add: Tx SubmitResult accepted_def)
      show ?thesis
      proof (cases "sender = p")
        case True
        with st' acc nx ng assms show ?thesis by simp
      next
        case False
        with st' acc nx assms show ?thesis by simp
      qed
    qed
  next
    case (ClaimBadge b')
    with Tx assms show ?thesis
      by (auto simp: apply_tx_def accepted_def claimBadge_def split: sum.splits)
  next
    case (UpdateQuestionPool cid v)
    with Tx assms show ?thesis by (simp add: apply_tx_def accepted_def updateQuestionPool_def)
  qed
qed

lemma exec_games_exact:
  assumes "unat (numGames (playerStats st p)) < unat (nextResultId st)"
  shows "unat (numGames (playerStats (exec F ts st) p)) =
           unat (numGames (playerStats st p)) + length (submitted F p ts st)"
  using assms
proof (induction ts arbitrary: st)
  case Nil
  show ?case by (simp add: exec_Nil)
next
  case (Cons t ts)
  from apply_tx_games_exact [OF Cons.prems, of F t]
  have a: "unat (numGames (playerStats (apply_tx F st t) p)) =
             unat (numGames (playerStats st p)) + length (accepted F p t st)"
    and b: "unat (numGames (playerStats (apply_tx F st t) p)) < unat (nextResultId (apply_tx F st t))"
    by simp_all
  from Cons.IH [OF b] a show ?case by (simp add: exec_Cons)
qed

lemma unat_sum_list: "unat (sum_list (ws :: uint32 list)) = sum_list (map unat ws) mod 2 ^ 32"
proof (induction ws)
  case Nil
  show ?case by simp
next
  case (Cons w ws)
  have "unat (w + sum_list ws) = (unat w + unat (sum_list ws)) mod 2 ^ 32"
    by (simp add: unat_word_ariths)
  also have "\<dots> = (unat w + sum_list (map unat ws)) mod 2 ^ 32"
    by (simp add: Cons.IH mod_add_right_eq)
  finally show ?case by simp
qed

subsection \<open>Claims about the ledger\<close>

text \<open>
  C1 (as amended). For every participant \<open>p\<close> and every run of transactions from the
  deployed contract, with \<open>s1..sn\<close> the scores of the accepted submissions of \<open>p\<close> in that
  run: the decrypted aggregate of \<open>p\<close> equals the sum \<open>s1 + ... + sn\<close> modulo \<open>2^32\<close> (the
  aggregate is an encrypted 32-bit integer), and \<open>gamesPlayed\<close> of \<open>p\<close> equals \<open>n\<close>. The
  counter of games cannot wrap around: it stays below \<open>nextResultId\<close>, whose increment is
  checked. Submissions of other participants, badge claims and reverted calls in between
  do not matter.
\<close>

theorem submit_sum_mod:
  assumes "fhe_homomorphic F"
  shows "unat (reveal F (getEncryptedTotalScore (exec F ts deployed) p)) =
           sum_list (map unat (submitted F p ts deployed)) mod 2 ^ 32
         \<and> unat (fst (getPlayerStats (exec F ts deployed) p)) =
           length (submitted F p ts deployed)"
proof -
  have z: "reveal F 0 = 0" using assms by (simp add: fhe_homomorphic_def)
  have "reveal F (getEncryptedTotalScore (exec F ts deployed) p) =
          sum_list (submitted F p ts deployed)"
    by (simp add: getEncryptedTotalScore_def exec_total [OF assms] deployed_def z)
  moreover have "unat (numGames (playerStats deployed p)) < unat (nextResultId deployed)"
    by (simp add: deployed_def zeroStats_def)
  then have "unat (numGames (playerStats (exec F ts deployed) p)) =
          unat (numGames (playerStats deployed p)) + length (submitted F p ts deployed)"
    by (rule exec_games_exact)
  then have "unat (fst (getPlayerStats (exec F ts deployed) p)) =
          length (submitted F p ts deployed)"
    by (simp add: getPlayerStats_def Let_def deployed_def zeroStats_def)
  ultimately show ?thesis
    by (simp add: unat_sum_list)
qed

theorem submit_sum_mod_witness:
  "fhe_homomorphic mock_fhe
   \<and> submitted mock_fhe alice three_games deployed = [5, 7, 9]
   \<and> unat (reveal mock_fhe (getEncryptedTotalScore (exec mock_fhe three_games deployed) alice)) = 21
   \<and> unat (fst (getPlayerStats (exec mock_fhe three_games deployed) alice)) = 3"
  using submit_sum_mod [OF mock_fhe_homomorphic, of three_games alice]
  by (simp add: mock_fhe_homomorphic three_games_submitted)

text \<open>
  C1 as stated fails when the sum does not fit in 32 bits: after the scores \<open>4294967295\<close>
  and \<open>1\<close> the decrypted aggregate is \<open>0\<close>, not \<open>4294967296\<close>.
\<close>

theorem submit_sum_counterexample:
  "submitted mock_fhe alice overflowing_games deployed = [4294967295, 1]
   \<and> unat (reveal mock_fhe (getEncryptedTotalScore (exec mock_fhe overflowing_games deployed) alice))
       \<noteq> unat (4294967295 :: uint32) + unat (1 :: uint32)"
  by (simp add: overflowing_games_def ledger_eval)

text \<open>
  C3. (1) For a claim that is already true, \<open>claimBadge\<close> fails with \<open>AlreadyClaimed\<close> and
  the transaction leaves the whole storage unchanged. (2) If a transaction turns the claim
  \<open>(b, p)\<close> from false to true, then it is \<open>claimBadge(b)\<close> sent by \<open>p\<close>, and the predicate
  of badge \<open>b\<close> in the specification's table holds of the statistics of \<open>p\<close> before the
  transaction at its block time. (3) A claim that is true stays true under every sequence
  of transactions.
\<close>

theorem claimBadge_once:
  "(badgeClaimed st b p \<longrightarrow>
      claimBadge p now b st = Inl AlreadyClaimed \<and> apply_tx F st (Tx p now (ClaimBadge b)) = st)
   \<and> (\<not> badgeClaimed st b p \<and> badgeClaimed (apply_tx F st t) b p \<longrightarrow>
      t = Tx p (tx_time t) (ClaimBadge b) \<and>
      spec_badge_predicate b (playerStats st p) (tx_time t))
   \<and> (badgeClaimed st b p \<longrightarrow> badgeClaimed (exec F ts st) b p)"
proof (intro conjI impI)
  assume "badgeClaimed st b p"
  then show "claimBadge p now b st = Inl AlreadyClaimed"
    by (simp add: claimBadge_def)
  then show "apply_tx F st (Tx p now (ClaimBadge b)) = st"
    by (simp add: apply_tx_def)
next
  assume "\<not> badgeClaimed st b p \<and> badgeClaimed (apply_tx F st t) b p"
  then have "t = Tx p (tx_time t) (ClaimBadge b) \<and>
             spec_badge_predicate b (playerStats st p) (tx_time t)"
    using claim_transition by blast
  then show "t = Tx p (tx_time t) (ClaimBadge b)"
    and "spec_badge_predicate b (playerStats st p) (tx_time t)" by blast+
next
  assume "badgeClaimed st b p"
  then show "badgeClaimed (exec F ts st) b p" by (rule badgeClaimed_exec)
qed

theorem claimBadge_once_witness:
  "\<not> badgeClaimed (exec mock_fhe three_games deployed) 4 alice
   \<and> badgeClaimed (apply_tx mock_fhe (exec mock_fhe three_games deployed) claim4) 4 alice
   \<and> spec_badge_predicate 4 (playerStats (exec mock_fhe three_games deployed) alice) 400
   \<and> claimBadge alice 500 4 (apply_tx mock_fhe (exec mock_fhe three_games deployed) claim4)
        = Inl AlreadyClaimed
   \<and> badgeClaimed
        (exec mock_fhe three_games (apply_tx mock_fhe (exec mock_fhe three_games deployed) claim4))
        4 alice"
proof -
  let ?st1 = "exec mock_fhe three_games deployed"
  let ?st2 = "apply_tx mock_fhe ?st1 claim4"
  have a: "\<not> badgeClaimed ?st1 4 alice"
    by (simp add: three_games_state)
  have b: "badgeClaimed ?st2 4 alice"
    by (subst three_games_state) (simp add: claim4_def ledger_eval)
  have t: "tx_time claim4 = 400"
    by (simp add: claim4_def)
  from claimBadge_once [of ?st1 4 alice _ mock_fhe claim4] a b t
  have c: "spec_badge_predicate 4 (playerStats ?st1 alice) 400" by simp
  from claimBadge_once [of ?st2 4 alice 500 mock_fhe _ three_games] b
  have d: "claimBadge alice 500 4 ?st2 = Inl AlreadyClaimed"
    and e: "badgeClaimed (exec mock_fhe three_games ?st2) 4 alice" by blast+
  from a b c d e show ?thesis by blast
qed

text \<open>
  C7 (as amended). For every owner who has not yet claimed badge 4 and whose statistics
  have \<open>gamesPlayed \<ge> 3\<close>: \<open>claimBadge(4)\<close> fails with \<open>ConditionsNotMet\<close> when
  \<open>lastPlayedAt\<close> is more than 7 days before the block time, and succeeds, setting the
  claim and emitting \<open>BadgeClaimed\<close>, exactly at the boundary \<open>lastPlayedAt + 7 days = now\<close>.
\<close>

theorem badge4_window:
  assumes "\<not> badgeClaimed st 4 p" and "numGames (playerStats st p) \<ge> 3"
  shows "(unat (lastPlayedAt (playerStats st p)) + 604800 < unat now \<longrightarrow>
            claimBadge p now 4 st = Inl ConditionsNotMet)
         \<and> (unat (lastPlayedAt (playerStats st p)) + 604800 = unat now \<longrightarrow>
            claimBadge p now 4 st =
              Inr (st\<lparr>badgeClaimed := (badgeClaimed st)(4 := (badgeClaimed st 4)(p := True))\<rparr>,
                   [BadgeClaimed p 4 now]))"
proof (intro conjI impI)
  let ?l = "lastPlayedAt (playerStats st p)"
  have bound: "unat now < 2 ^ 256"
    using unsigned_less [of now] by simp
  have d7: "unat days7 = 604800"
    by (simp add: days7_def)
  {
    assume lt: "unat ?l + 604800 < unat now"
    with bound have nov: "unat ?l + unat days7 < 2 ^ 256"
      by (simp add: d7)
    then have "unat (?l + days7) = unat ?l + 604800"
      by (simp add: unat_word_ariths d7)
    with lt have "\<not> now \<le> ?l + days7"
      by (simp add: word_le_nat_alt)
    with nov assms show "claimBadge p now 4 st = Inl ConditionsNotMet"
      by (simp add: claimBadge_def badge_ok_def checked_add_def)
  }
  {
    assume eq: "unat ?l + 604800 = unat now"
    with bound have nov: "unat ?l + unat days7 < 2 ^ 256"
      by (simp add: d7)
    then have "unat (?l + days7) = unat ?l + 604800"
      by (simp add: unat_word_ariths d7)
    with eq have "now \<le> ?l + days7"
      by (simp add: word_le_nat_alt)
    with nov assms show "claimBadge p now 4 st =
        Inr (st\<lparr>badgeClaimed := (badgeClaimed st)(4 := (badgeClaimed st 4)(p := True))\<rparr>,
             [BadgeClaimed p 4 now])"
      by (simp add: claimBadge_def badge_ok_def checked_add_def)
  }
qed

theorem badge4_window_witness:
  "\<not> badgeClaimed (exec mock_fhe three_games deployed) 4 alice
   \<and> numGames (playerStats (exec mock_fhe three_games deployed) alice) \<ge> 3
   \<and> unat (lastPlayedAt (playerStats (exec mock_fhe three_games deployed) alice)) + 604800
        < unat (605101 :: uint256)
   \<and> claimBadge alice 605101 4 (exec mock_fhe three_games deployed) = Inl ConditionsNotMet
   \<and> unat (lastPlayedAt (playerStats (exec mock_fhe three_games deployed) alice)) + 604800
        = unat (605100 :: uint256)
   \<and> badgeClaimed (apply_tx mock_fhe (exec mock_fhe three_games deployed)
                      (Tx alice 605100 (ClaimBadge 4))) 4 alice"
proof -
  let ?st = "exec mock_fhe three_games deployed"
  have a: "\<not> badgeClaimed ?st 4 alice"
    by (simp add: three_games_state)
  have b: "numGames (playerStats ?st alice) \<ge> 3"
    by (simp add: three_games_state)
  have c: "unat (lastPlayedAt (playerStats ?st alice)) + 604800 < unat (605101 :: uint256)"
    by (simp add: three_games_state)
  have d: "unat (lastPlayedAt (playerStats ?st alice)) + 604800 = unat (605100 :: uint256)"
    by (simp add: three_games_state)
  from badge4_window [OF a b, of 605101] c
  have e: "claimBadge alice 605101 4 ?st = Inl ConditionsNotMet" by blast
  from badge4_window [OF a b, of 605100] d
  have "claimBadge alice 605100 4 ?st =
          Inr (?st\<lparr>badgeClaimed := (badgeClaimed ?st)(4 := (badgeClaimed ?st 4)(alice := True))\<rparr>,
               [BadgeClaimed alice 4 605100])" by blast
  then have f: "badgeClaimed (apply_tx mock_fhe ?st (Tx alice 605100 (ClaimBadge 4))) 4 alice"
    by (simp add: apply_tx_def)
  from a b c d e f show ?thesis by blast
qed

text \<open>
  C7 as stated fails for an owner who has already claimed badge 4: with three games played
  and the last one more than 7 days ago, a further \<open>claimBadge(4)\<close> fails with
  \<open>AlreadyClaimed\<close>, which the contract checks first.
\<close>

theorem badge4_counterexample:
  "numGames (playerStats (exec mock_fhe (three_games @ [claim4]) deployed) alice) \<ge> 3
   \<and> unat (lastPlayedAt (playerStats (exec mock_fhe (three_games @ [claim4]) deployed) alice))
        + 604800 < unat (605101 :: uint256)
   \<and> claimBadge alice 605101 4 (exec mock_fhe (three_games @ [claim4]) deployed)
        = Inl AlreadyClaimed
   \<and> claimBadge alice 605101 4 (exec mock_fhe (three_games @ [claim4]) deployed)
        \<noteq> Inl ConditionsNotMet"
  unfolding exec_append three_games_state
  by (simp add: claim4_def ledger_eval)

text \<open>
  C9. \<open>updateQuestionPool\<close> succeeds for every caller and every argument, returns the
  storage it was given and emits exactly the event \<open>QuestionPoolUpdated\<close>; as a transaction
  it leaves the storage unchanged, and deleting it from a run changes nothing in the
  final storage.
\<close>

theorem updateQuestionPool_frame:
  "updateQuestionPool sender poolCID version st = Inr (st, [QuestionPoolUpdated poolCID version])
   \<and> apply_tx F st (Tx sender now (UpdateQuestionPool poolCID version)) = st
   \<and> exec F (ts @ Tx sender now (UpdateQuestionPool poolCID version) # ts') st0
       = exec F (ts @ ts') st0"
  by (simp add: updateQuestionPool_def apply_tx_def exec_append exec_Cons)

section \<open>Properties of the coordinator\<close>

subsection \<open>Auxiliary facts\<close>

lemmas coord_eval =
  refreshEncryptedTotal_def initEffect_def render_def refresh_then_def refresh_catch_def
  refresh_finally_def contract_def truthy_str_def truthy_num_def refreshKey_def handleStr_def
  demo_table_def paramsA_def paramsB_def paramsLoading_def liveOf_def ctxA_def signerA_def
  signerB_def initial_coord_def Let_def

lemmas segment_defs =
  render_def refresh_then_def refresh_catch_def refresh_finally_def decrypt_enter_def
  decrypt_guards_def decrypt_after_sign_def decrypt_after_userDecrypt_def decrypt_finally_def
  submit_guards_def submit_after_delay_def submit_after_encrypt_def submit_after_send_def
  submit_fail_def Let_def

text \<open>
  The two throttle references are written only where \<open>refreshEncryptedTotal\<close> issues its
  read: a piece of code that reads nothing from the ledger leaves them as they are.
\<close>

lemma refresh_no_read_throttle:
  assumes "reads (fst (snd (refreshEncryptedTotal P now s))) = 0"
  shows "lastRefreshKeyRef (fst (refreshEncryptedTotal P now s)) = lastRefreshKeyRef s
         \<and> lastRefreshAtRef (fst (refreshEncryptedTotal P now s)) = lastRefreshAtRef s"
  using assms
  by (auto simp: refreshEncryptedTotal_def Let_def reads_def split: if_splits)

lemma event_no_read_throttle:
  assumes "reads (snd (apply_event e s)) = 0"
  shows "lastRefreshKeyRef (fst (apply_event e s)) = lastRefreshKeyRef s
         \<and> lastRefreshAtRef (fst (apply_event e s)) = lastRefreshAtRef s"
proof (cases e)
  case (RefreshCall P now)
  with assms refresh_no_read_throttle [of P now s] show ?thesis
    by (simp split: prod.splits)
next
  case (InitEffect P now)
  with assms
    refresh_no_read_throttle [of P now "s\<lparr>initRefreshKeyRef :=
      refreshKey (the (c_address (contract P))) (the (ethersSigner P))\<rparr>"]
  show ?thesis
    by (auto simp: initEffect_def Let_def split: prod.splits if_splits)
next
  case (SubmitAfterWait P now ctx r)
  with assms
    refresh_no_read_throttle [of P now "s\<lparr>message := MsgSubmitDone (projr r)\<rparr>"]
  show ?thesis
    by (cases r) (auto simp: submit_after_wait_def submit_fail_def split: prod.splits)
qed (auto simp: segment_defs split: sum.splits option.splits if_splits prod.splits)

lemma reads_append: "reads (xs @ ys) = reads xs + reads ys"
  by (simp add: reads_def)

lemma events_no_read_throttle:
  assumes "reads (snd (run evs s)) = 0"
  shows "lastRefreshKeyRef (fst (run evs s)) = lastRefreshKeyRef s
         \<and> lastRefreshAtRef (fst (run evs s)) = lastRefreshAtRef s"
  using assms
proof (induction evs arbitrary: s)
  case Nil
  show ?case by simp
next
  case (Cons e evs)
  obtain s1 c1 where a: "apply_event e s = (s1, c1)" by (cases "apply_event e s")
  obtain s2 c2 where r: "run evs s1 = (s2, c2)" by (cases "run evs s1")
  from Cons.prems a r have z: "reads c1 = 0" "reads c2 = 0"
    by (simp_all add: reads_append)
  from event_no_read_throttle [of e s] a z(1)
  have h1: "lastRefreshKeyRef s1 = lastRefreshKeyRef s" "lastRefreshAtRef s1 = lastRefreshAtRef s"
    by simp_all
  from Cons.IH [of s1] r z(2)
  have h2: "lastRefreshKeyRef s2 = lastRefreshKeyRef s1" "lastRefreshAtRef s2 = lastRefreshAtRef s1"
    by simp_all
  from a r h1 h2 show ?case by simp
qed

lemma refresh_issued:
  assumes "refreshEncryptedTotal P now s = (s1, calls, Some ctx)"
  shows "truthy_str (c_address (contract P)) \<and> ethersSigner P \<noteq> None
         \<and> lastRefreshKeyRef s1 = refreshKey (the (c_address (contract P))) (the (ethersSigner P))
         \<and> lastRefreshAtRef s1 = now
         \<and> ctx = \<lparr>r_chainId = c_chainId (contract P), r_address = the (c_address (contract P)),
                   r_signer = the (ethersSigner P)\<rparr>
         \<and> calls = [LedgerRead (the (c_address (contract P)))
                       (signer_address (the (ethersSigner P)))]"
  using assms
  by (auto simp: refreshEncryptedTotal_def Let_def split: if_splits)

lemma refresh_skipped:
  assumes "isRefreshingRef s \<or>
           (lastRefreshKeyRef s = refreshKey (the (c_address (contract P))) (the (ethersSigner P))
            \<and> now - lastRefreshAtRef s < 2000)"
  shows "fst (snd (refreshEncryptedTotal P now s)) = []
         \<and> snd (snd (refreshEncryptedTotal P now s)) = None"
  using assms
  by (auto simp: refreshEncryptedTotal_def Let_def)

subsection \<open>Claims about the coordinator\<close>

text \<open>
  C4 (as amended). Take a call of \<open>refreshEncryptedTotal\<close> at time \<open>t1\<close> that issues its
  read, then any events that issue no ledger read (the answer of the first read and further
  refresh calls that are skipped may be among them), then a second call at time \<open>t2\<close>
  with the same ledger address and signer address, less than 2000 ms after the first. The
  first call issues exactly one ledger read, the second call issues no call at all, and
  one read is issued in total. The second call is skipped because the first is still in
  flight or because the throttle window of the same key has not elapsed.
\<close>

theorem refresh_pair_one_read:
  assumes first: "refreshEncryptedTotal P1 t1 s = (s1, calls1, Some ctx)"
    and between: "run evs s1 = (s2, calls_between)"
    and no_read_between: "reads calls_between = 0"
    and same_ledger: "c_address (contract P2) = c_address (contract P1)"
    and same_signer: "map_option signer_address (ethersSigner P2)
                        = map_option signer_address (ethersSigner P1)"
    and near: "t2 - t1 < 2000"
    and second: "refreshEncryptedTotal P2 t2 s2 = (s3, calls2, r2)"
  shows "calls1 = [LedgerRead (r_address ctx) (signer_address (r_signer ctx))]
         \<and> calls2 = [] \<and> r2 = None
         \<and> reads (calls1 @ calls_between @ calls2) = 1
         \<and> (isRefreshingRef s2 \<or>
              (lastRefreshKeyRef s2 = refreshKey (r_address ctx) (r_signer ctx)
               \<and> t2 - lastRefreshAtRef s2 < 2000))"
proof -
  from refresh_issued [OF first]
  have p1: "ethersSigner P1 \<noteq> None"
    and k1: "lastRefreshKeyRef s1 = refreshKey (the (c_address (contract P1))) (the (ethersSigner P1))"
    and a1: "lastRefreshAtRef s1 = t1"
    and cx: "ctx = \<lparr>r_chainId = c_chainId (contract P1), r_address = the (c_address (contract P1)),
                    r_signer = the (ethersSigner P1)\<rparr>"
    and c1: "calls1 = [LedgerRead (the (c_address (contract P1)))
                         (signer_address (the (ethersSigner P1)))]"
    by simp_all
  from events_no_read_throttle [of evs s1] between no_read_between
  have k2: "lastRefreshKeyRef s2 = lastRefreshKeyRef s1"
    and a2: "lastRefreshAtRef s2 = lastRefreshAtRef s1" by simp_all
  note nb = no_read_between
  from p1 same_signer
  have sg: "signer_address (the (ethersSigner P2)) = signer_address (the (ethersSigner P1))"
    by (cases "ethersSigner P1"; cases "ethersSigner P2") simp_all
  have key: "refreshKey (the (c_address (contract P2))) (the (ethersSigner P2))
             = refreshKey (the (c_address (contract P1))) (the (ethersSigner P1))"
    by (simp add: refreshKey_def same_ledger sg)
  have thr: "lastRefreshKeyRef s2 = refreshKey (the (c_address (contract P2))) (the (ethersSigner P2))
             \<and> t2 - lastRefreshAtRef s2 < 2000"
    by (simp add: k2 k1 a2 a1 key near)
  from refresh_skipped [of s2 P2 t2] thr second
  have c2: "calls2 = []" and r2: "r2 = None" by simp_all
  have one: "reads (calls1 @ calls_between @ calls2) = 1"
    using nb by (simp add: c1 c2 reads_def)
  from thr key have why: "lastRefreshKeyRef s2 = refreshKey (r_address ctx) (r_signer ctx)
               \<and> t2 - lastRefreshAtRef s2 < 2000"
    by (simp add: cx)
  from c1 cx c2 r2 one why show ?thesis by simp
qed

theorem refresh_pair_one_read_witness:
  "refreshEncryptedTotal paramsA 1000000 (render paramsA initial_coord)
     = (refreshing_coord,
        [LedgerRead ''0x5FbDB2315678afecb367f032d93F642f64180aa3'' ''0xA1''], Some ctxA)
   \<and> reads (snd (run same_key_between refreshing_coord)) = 0
   \<and> (1001999 :: int) - 1000000 < 2000
   \<and> fst (snd (refreshEncryptedTotal paramsA 1001999
         (fst (run same_key_between refreshing_coord)))) = []
   \<and> snd (snd (refreshEncryptedTotal paramsA 1001999
         (fst (run same_key_between refreshing_coord)))) = None"
proof -
  have first: "refreshEncryptedTotal paramsA 1000000 (render paramsA initial_coord)
     = (refreshing_coord,
        [LedgerRead ''0x5FbDB2315678afecb367f032d93F642f64180aa3'' ''0xA1''], Some ctxA)"
    by (simp add: refreshing_coord_def coord_eval)
  have near: "(1001999 :: int) - 1000000 < 2000" by simp
  obtain s2 cb where between: "run same_key_between refreshing_coord = (s2, cb)"
    by (cases "run same_key_between refreshing_coord")
  have "reads (snd (run same_key_between refreshing_coord)) = 0"
    by (simp add: same_key_between_def refreshing_coord_def coord_eval reads_def)
  with between have quiet: "reads cb = 0" by simp
  obtain s3 c2 r2 where second: "refreshEncryptedTotal paramsA 1001999 s2 = (s3, c2, r2)"
    by (cases "refreshEncryptedTotal paramsA 1001999 s2")
  from refresh_pair_one_read [OF first between quiet refl refl near second]
  have "c2 = []" and "r2 = None" by simp_all
  with first quiet near between second show ?thesis by simp
qed

text \<open>
  C4 as stated fails: the throttle remembers the key of the last refresh only. Signer A
  refreshes, the wallet switches to signer B, whose refresh runs, and back to A: the second
  refresh for A, 1000 ms after the first and with the same key, reads the ledger again.
\<close>

theorem refresh_pair_counterexample:
  "fst (snd (refreshEncryptedTotal paramsA 1000000 (render paramsA initial_coord)))
     = [LedgerRead ''0x5FbDB2315678afecb367f032d93F642f64180aa3'' ''0xA1'']
   \<and> fst (snd (refreshEncryptedTotal paramsA 1001000 (fst (run switch_and_back refreshing_coord))))
     = [LedgerRead ''0x5FbDB2315678afecb367f032d93F642f64180aa3'' ''0xA1'']"
  by (simp add: refreshing_coord_def switch_and_back_def coord_eval)

text \<open>How long \<open>waitForRefresh\<close> waits, and when it stops early.\<close>

lemma waitForRefresh_bounds:
  assumes "0 < n" and "waitForRefresh n world k s = (k', s', c)"
  shows "k < k' \<and> k' \<le> k + n \<and> (isRefreshingRef s' \<longrightarrow> k' = k + n)"
  using assms
proof (induction n arbitrary: k s c k' s')
  case 0
  then show ?case by simp
next
  case (Suc n)
  obtain s1 c1 where r: "run (world k) s = (s1, c1)" by (cases "run (world k) s")
  show ?case
  proof (cases "\<not> isRefreshingRef s1 \<or> n = 0")
    case True
    with Suc.prems r show ?thesis by auto
  next
    case False
    obtain k2 s2 c2 where w: "waitForRefresh n world (Suc k) s1 = (k2, s2, c2)"
      by (cases "waitForRefresh n world (Suc k) s1")
    from False have "0 < n" by simp
    from Suc.IH [OF this w] have "Suc k < k2 \<and> k2 \<le> Suc k + n \<and> (isRefreshingRef s2 \<longrightarrow> k2 = Suc k + n)" .
    moreover from Suc.prems r False w have "k' = k2" "s' = s2" by simp_all
    ultimately show ?thesis by simp
  qed
qed



lemma decrypt_guards_result:
  "snd (snd (decrypt_guards P h force s)) =
     (if isDecryptingRef s then Inl AlreadyInProgress
      else if \<not> ready P then Inl NotReady
      else if \<not> usable_handle h then Inl NoCiphertext
      else Inr \<lparr>d_chainId = chainId P, d_address = the (c_address (contract P)), d_handle = the h,
                d_signer = the (ethersSigner P), d_force = force\<rparr>)"
  by (simp add: decrypt_guards_def Let_def)

lemma decrypt_guards_calls:
  "fst (snd (decrypt_guards P h force s)) =
     (if \<not> isDecryptingRef s \<and> ready P \<and> usable_handle h
      then [LoadOrSign (the (c_address (contract P))) (the (ethersSigner P)) force] else [])"
  by (simp add: decrypt_guards_def Let_def)



lemma decryptEncryptedTotal_idle:
  assumes "\<not> isRefreshingRef s"
  shows "decryptEncryptedTotal P h force world s =
           (0, fst (decrypt_guards P h force s), [],
            fst (snd (decrypt_guards P h force s)), snd (snd (decrypt_guards P h force s)))"
  using assms
  by (simp add: decryptEncryptedTotal_def decrypt_enter_def split: prod.splits)

lemma refreshing_coord_flags:
  "isRefreshingRef refreshing_coord \<and> \<not> isDecryptingRef refreshing_coord
   \<and> \<not> isSubmittingRef refreshing_coord"
  by (simp add: refreshing_coord_def coord_eval)

lemma ready_paramsA: "ready paramsA"
  by (simp add: ready_def coord_eval)

lemma not_ready_paramsLoading: "\<not> ready paramsLoading"
  by (simp add: ready_def coord_eval)




lemma guard_state_idle: "\<not> isRefreshingRef s \<Longrightarrow> guard_state world s = s"
  by (simp add: guard_state_def decrypt_enter_def)


lemma decryptEncryptedTotal_guards:
  "snd (snd (decryptEncryptedTotal P h force world s)) =
     (fst (snd (snd (decryptEncryptedTotal P h force world s))),
      snd (decrypt_guards P h force (guard_state world s)))"
  by (simp add: decryptEncryptedTotal_def guard_state_def split: prod.splits bool.splits)




text \<open>
  C2 fails on the code for a refresh. When the read of a refresh answers, the chain and
  the ledger address are compared with the current ones, the signer is not: if they are
  unchanged the answer is stored as the handle, the cleartext is cleared and the message is
  set, although the signer for whom the read was issued is no longer the current one.
\<close>

theorem refresh_keeps_stale_signer_result:
  assumes "\<not> sameSigner L (Some (r_signer ctx))"
    and "sameChain L (r_chainId ctx)"
    and "Some (r_address ctx) = c_address (geoRef s)"
  shows "refresh_then L ctx v s =
           s\<lparr>handle := Some (handleStr v), clear := None,
              message := (if isZeroHandle (handleStr v) then MsgNoScoreYet else MsgRefreshed),
              isRefreshingRef := False, isRefreshing := False\<rparr>"
  using assms by (simp add: refresh_then_def refresh_finally_def Let_def)

text \<open>
  The failing run: the read is issued for signer A, the wallet switches to signer B on the
  same chain, the refresh that B's render asks for is skipped because A's is in flight,
  and A's handle \<open>0xaa11\<close> ends up as the current handle.
\<close>

theorem refresh_keeps_stale_signer_result_witness:
  "snd (snd (initEffect paramsA 1000 (render paramsA initial_coord))) = Some ctxA
   \<and> reads (snd (run signer_switch initial_coord)) = 1
   \<and> \<not> sameSigner (liveOf paramsB) (Some (r_signer ctxA))
   \<and> sameChain (liveOf paramsB) (r_chainId ctxA)
   \<and> Some (r_address ctxA) = c_address (geoRef (fst (run signer_switch initial_coord)))
   \<and> handle (fst (run signer_switch initial_coord)) = None
   \<and> handle (refresh_then (liveOf paramsB) ctxA (Text ''0xaa11'')
               (fst (run signer_switch initial_coord))) = Some ''0xaa11''
   \<and> message (refresh_then (liveOf paramsB) ctxA (Text ''0xaa11'')
               (fst (run signer_switch initial_coord))) = MsgRefreshed"
proof -
  let ?s = "fst (run signer_switch initial_coord)"
  have a: "snd (snd (initEffect paramsA 1000 (render paramsA initial_coord))) = Some ctxA"
    by (simp add: coord_eval)
  have b: "reads (snd (run signer_switch initial_coord)) = 1"
    by (simp add: signer_switch_def coord_eval reads_def)
  have c: "\<not> sameSigner (liveOf paramsB) (Some (r_signer ctxA))"
    by (simp add: coord_eval)
  have d: "sameChain (liveOf paramsB) (r_chainId ctxA)"
    by (simp add: coord_eval)
  have e: "Some (r_address ctxA) = c_address (geoRef ?s)"
    by (simp add: signer_switch_def coord_eval)
  have f: "handle ?s = None"
    by (simp add: signer_switch_def coord_eval)
  from refresh_keeps_stale_signer_result [OF c d e, of "Text ''0xaa11''"]
  have g: "handle (refresh_then (liveOf paramsB) ctxA (Text ''0xaa11'') ?s) = Some ''0xaa11''"
    and h: "message (refresh_then (liveOf paramsB) ctxA (Text ''0xaa11'') ?s) = MsgRefreshed"
    by (simp_all add: handleStr_def)
  from a b c d e f g h show ?thesis by blast
qed

text \<open>
  What the code does discard: the answer of a refresh after a change of ledger address or
  chain, and the answers of \<open>loadOrSign\<close> and \<open>userDecrypt\<close> in a decrypt after a change of
  ledger address, chain or signer. Then only the lock and, in a decrypt, the message change.
\<close>

lemma refresh_then_stale:
  assumes "Some (r_address ctx) \<noteq> c_address (geoRef s) \<or> \<not> sameChain L (r_chainId ctx)"
  shows "refresh_then L ctx v s = s\<lparr>isRefreshingRef := False, isRefreshing := False\<rparr>"
  using assms by (auto simp: refresh_then_def refresh_finally_def Let_def)

lemma decrypt_after_sign_stale:
  assumes "decrypt_isStale L ctx s"
  shows "decrypt_after_sign L ctx (Inr (Some sg)) s =
           (s\<lparr>message := MsgStaleRequest, isDecryptingRef := False, isDecrypting := False\<rparr>,
            [], Some Stale)"
  using assms by (simp add: decrypt_after_sign_def decrypt_finally_def)

lemma decrypt_after_userDecrypt_stale:
  assumes "decrypt_isStale L ctx s"
  shows "decrypt_after_userDecrypt L ctx (Inr res) s =
           (s\<lparr>message := MsgStaleResult, isDecryptingRef := False, isDecrypting := False\<rparr>,
            Some Stale)"
  using assms by (simp add: decrypt_after_userDecrypt_def decrypt_finally_def)

lemma apply_tx_total_unchanged:
  assumes "accepted F p t st = []"
  shows "encryptedTotalScoreByPlayer (apply_tx F st t) p = encryptedTotalScoreByPlayer st p"
proof (cases t)
  case (Tx sender now c)
  show ?thesis
  proof (cases c)
    case (SubmitResult ext ipf h cid pub)
    with Tx assms show ?thesis
      by (auto simp: apply_tx_def accepted_def submitResult_def Let_def
            split: option.splits if_splits)
  next
    case (ClaimBadge b')
    with Tx show ?thesis
      by (auto simp: apply_tx_def claimBadge_def split: sum.splits)
  next
    case (UpdateQuestionPool cid v)
    with Tx show ?thesis by (simp add: apply_tx_def updateQuestionPool_def)
  qed
qed

lemma exec_total_unchanged:
  assumes "submitted F p ts st = []"
  shows "encryptedTotalScoreByPlayer (exec F ts st) p = encryptedTotalScoreByPlayer st p"
  using assms
  by (induction ts arbitrary: st) (simp_all add: exec_Nil exec_Cons apply_tx_total_unchanged)

lemma zero_handle_texts:
  "isZeroHandle (handleStr (BigInt 0))"
  "isZeroHandle (handleStr (Text (''0x'' @ replicate 64 (CHR ''0''))))"
  by (simp add: handleStr_def toString16.simps [of 0] hexDigit_def, code_simp)

text \<open>
  C6 (as amended). For every account with no accepted submission the contract returns the
  all-zero handle, which the coordinator holds as a text that its zero test recognises.
  A call of \<open>decryptEncryptedTotal\<close> for a missing or zero handle issues no external call
  of its own (no capability is requested, so the signer is not contacted) and stops at
  its entry guards, in this order: with \<open>AlreadyInProgress\<close> if another decrypt is in
  flight when the guards run, otherwise with \<open>NotReady\<close> if the ledger address, the FHEVM
  instance or the signer that the call holds is missing, otherwise with \<open>NoCiphertext\<close>.
\<close>

theorem zero_handle_stops_decrypt:
  "(submitted F p ts deployed = [] \<longrightarrow> getEncryptedTotalScore (exec F ts deployed) p = 0)
   \<and> isZeroHandle (handleStr (BigInt 0))
   \<and> isZeroHandle (handleStr (Text (''0x'' @ replicate 64 (CHR ''0''))))
   \<and> (isZeroHandle z \<longrightarrow> \<not> usable_handle (Some z))
   \<and> (\<not> usable_handle h \<longrightarrow>
        fst (snd (snd (snd (decryptEncryptedTotal P h force world s)))) = []
        \<and> snd (snd (snd (snd (decryptEncryptedTotal P h force world s)))) =
            (if isDecryptingRef (guard_state world s) then Inl AlreadyInProgress
             else if \<not> ready P then Inl NotReady
             else Inl NoCiphertext))
   \<and> (\<not> usable_handle h \<and> \<not> isDecryptingRef s \<and> ready P \<longrightarrow>
        decrypt_guards P h force s = (s\<lparr>message := MsgNoCiphertext\<rparr>, [], Inl NoCiphertext))"
proof (intro conjI impI)
  assume "submitted F p ts deployed = []"
  then show "getEncryptedTotalScore (exec F ts deployed) p = 0"
    by (simp add: getEncryptedTotalScore_def exec_total_unchanged deployed_def)
next
  show "isZeroHandle (handleStr (BigInt 0))" by (rule zero_handle_texts)
next
  show "isZeroHandle (handleStr (Text (''0x'' @ replicate 64 (CHR ''0''))))"
    by (rule zero_handle_texts)
next
  assume "isZeroHandle z"
  then show "\<not> usable_handle (Some z)" by (simp add: usable_handle_def)
next
  assume u: "\<not> usable_handle h"
  have d: "snd (snd (snd (decryptEncryptedTotal P h force world s))) =
             snd (decrypt_guards P h force (guard_state world s))"
    using decryptEncryptedTotal_guards [of P h force world s] by (simp add: prod_eq_iff)
  from d u show "fst (snd (snd (snd (decryptEncryptedTotal P h force world s)))) = []"
    by (simp add: decrypt_guards_calls)
  from d u show "snd (snd (snd (snd (decryptEncryptedTotal P h force world s)))) =
            (if isDecryptingRef (guard_state world s) then Inl AlreadyInProgress
             else if \<not> ready P then Inl NotReady
             else Inl NoCiphertext)"
    by (simp add: decrypt_guards_result)
next
  assume "\<not> usable_handle h \<and> \<not> isDecryptingRef s \<and> ready P"
  then show "decrypt_guards P h force s = (s\<lparr>message := MsgNoCiphertext\<rparr>, [], Inl NoCiphertext)"
    by (simp add: decrypt_guards_def)
qed

theorem zero_handle_stops_decrypt_witness:
  "submitted mock_fhe 0xB0B three_games deployed = []
   \<and> getEncryptedTotalScore (exec mock_fhe three_games deployed) 0xB0B = 0
   \<and> isZeroHandle ''0x0'' \<and> \<not> usable_handle (Some ''0x0'')
   \<and> \<not> isDecryptingRef initial_coord \<and> ready paramsA
   \<and> decryptEncryptedTotal paramsA (Some ''0x0'') True never_answers initial_coord
       = (0, initial_coord\<lparr>message := MsgNoCiphertext\<rparr>, [], [], Inl NoCiphertext)
   \<and> snd (snd (snd (snd
        (decryptEncryptedTotal paramsB (Some ''0x0'') False never_answers
           switched_while_decrypting)))) = Inl AlreadyInProgress"
proof -
  have a: "submitted mock_fhe 0xB0B three_games deployed = []"
    by (simp add: three_games_def ledger_eval)
  have z: "isZeroHandle ''0x0''" by simp
  have d: "\<not> isDecryptingRef initial_coord" "\<not> isRefreshingRef initial_coord"
    by (simp_all add: initial_coord_def)
  note t = zero_handle_stops_decrypt [of mock_fhe "0xB0B" three_games "''0x0''" "Some ''0x0''"
      paramsA True never_answers initial_coord]
  from t a have b: "getEncryptedTotalScore (exec mock_fhe three_games deployed) 0xB0B = 0"
    by blast
  from t z have u: "\<not> usable_handle (Some ''0x0'')" by blast
  from t u d(1) ready_paramsA
  have g: "decrypt_guards paramsA (Some ''0x0'') True initial_coord
             = (initial_coord\<lparr>message := MsgNoCiphertext\<rparr>, [], Inl NoCiphertext)" by blast
  from decryptEncryptedTotal_idle [OF d(2), of paramsA "Some ''0x0''" True never_answers] g
  have c: "decryptEncryptedTotal paramsA (Some ''0x0'') True never_answers initial_coord
       = (0, initial_coord\<lparr>message := MsgNoCiphertext\<rparr>, [], [], Inl NoCiphertext)" by simp
  have sw: "\<not> isRefreshingRef switched_while_decrypting" "isDecryptingRef switched_while_decrypting"
    by (simp_all add: switched_while_decrypting_def refreshing_coord_def decrypt_guards_def
          ready_def usable_handle_def ctxB_def coord_eval)
  from zero_handle_stops_decrypt [of mock_fhe "0xB0B" three_games "''0x0''" "Some ''0x0''"
      paramsB False never_answers switched_while_decrypting] u sw
  have e: "snd (snd (snd (snd
        (decryptEncryptedTotal paramsB (Some ''0x0'') False never_answers
           switched_while_decrypting)))) = Inl AlreadyInProgress"
    by (simp add: guard_state_idle)
  from a b z u d(1) ready_paramsA c e show ?thesis by blast
qed

text \<open>
  C6 as stated fails where an earlier guard stops the call. With the zero handle of an
  account that has no submission and the FHEVM instance still loading, the call ends with
  \<open>NotReady\<close>. With the zero handle stored for signer B while a decryption started for
  signer A is still in flight, the call ends with \<open>AlreadyInProgress\<close>. In neither run is
  the result \<open>NoCiphertext\<close>; in both no external call is issued.
\<close>

theorem zero_handle_counterexample:
  "handle loading_zero_coord = Some ''0x0''
   \<and> isZeroHandle ''0x0''
   \<and> decryptEncryptedTotal paramsLoading (Some ''0x0'') False never_answers loading_zero_coord
       = (0, loading_zero_coord\<lparr>message := MsgNotReady\<rparr>, [], [], Inl NotReady)
   \<and> handle switched_while_decrypting = Some ''0x0''
   \<and> decryptEncryptedTotal paramsB (Some ''0x0'') False never_answers switched_while_decrypting
       = (0, switched_while_decrypting\<lparr>message := MsgDecryptInProgress\<rparr>, [], [],
          Inl AlreadyInProgress)"
proof -
  have l: "handle loading_zero_coord = Some ''0x0''" "\<not> isRefreshingRef loading_zero_coord"
    "\<not> isDecryptingRef loading_zero_coord"
    by (simp_all add: loading_zero_coord_def coord_eval)
  have gl: "decrypt_guards paramsLoading (Some ''0x0'') False loading_zero_coord
      = (loading_zero_coord\<lparr>message := MsgNotReady\<rparr>, [], Inl NotReady)"
    using l(3) not_ready_paramsLoading by (simp add: decrypt_guards_def)
  from decryptEncryptedTotal_idle [OF l(2), of paramsLoading "Some ''0x0''" False never_answers] gl
  have one: "decryptEncryptedTotal paramsLoading (Some ''0x0'') False never_answers loading_zero_coord
       = (0, loading_zero_coord\<lparr>message := MsgNotReady\<rparr>, [], [], Inl NotReady)" by simp
  have sw: "handle switched_while_decrypting = Some ''0x0''"
    "\<not> isRefreshingRef switched_while_decrypting" "isDecryptingRef switched_while_decrypting"
    by (simp_all add: switched_while_decrypting_def refreshing_coord_def decrypt_guards_def
          ready_def usable_handle_def ctxB_def coord_eval)
  have gs: "decrypt_guards paramsB (Some ''0x0'') False switched_while_decrypting
      = (switched_while_decrypting\<lparr>message := MsgDecryptInProgress\<rparr>, [], Inl AlreadyInProgress)"
    using sw(3) by (simp add: decrypt_guards_def)
  from decryptEncryptedTotal_idle [OF sw(2), of paramsB "Some ''0x0''" False never_answers] gs
  have two: "decryptEncryptedTotal paramsB (Some ''0x0'') False never_answers switched_while_decrypting
       = (0, switched_while_decrypting\<lparr>message := MsgDecryptInProgress\<rparr>, [], [],
          Inl AlreadyInProgress)" by simp
  from l(1) one sw(1) two show ?thesis by simp
qed

lemma submit_fail_released:
  "\<not> isSubmittingRef (submit_fail e s) \<and> \<not> isSubmitting (submit_fail e s)"
  by (simp add: submit_fail_def)

lemma submit_after_delay_released:
  "submit_after_delay ctx r s = (s', calls, Some f) \<Longrightarrow> \<not> isSubmittingRef s' \<and> \<not> isSubmitting s'"
  by (auto simp: submit_after_delay_def submit_fail_def split: option.splits)

lemma submit_after_encrypt_released:
  "submit_after_encrypt L ctx r s = (s', calls, Some f) \<Longrightarrow> \<not> isSubmittingRef s' \<and> \<not> isSubmitting s'"
  by (auto simp: submit_after_encrypt_def submit_fail_def split: option.splits if_splits)

lemma submit_after_send_released:
  "submit_after_send ctx r s = (s', calls, Some f) \<Longrightarrow> \<not> isSubmittingRef s' \<and> \<not> isSubmitting s'"
  by (auto simp: submit_after_send_def submit_fail_def split: sum.splits)

lemma submit_after_wait_released:
  "submit_after_wait P now ctx r s = (s', calls, f) \<Longrightarrow> \<not> isSubmittingRef s' \<and> \<not> isSubmitting s'"
  by (auto simp: submit_after_wait_def submit_fail_def split: sum.splits prod.splits)

lemma submitCore_released:
  assumes "submit_guards P pl s = (s0, calls, Inr ctx)"
  shows "\<not> isSubmittingRef (fst (submitCore P pl W s)) \<and> \<not> isSubmitting (fst (submitCore P pl W s))"
proof -
  obtain s1 c1 f1 where d: "submit_after_delay ctx (input_thrown W) (fst (run (during_delay W) s0))
      = (s1, c1, f1)" by (metis prod_cases3)
  obtain s2 c2 f2 where e: "submit_after_encrypt (live_at_check W) ctx (encrypt_thrown W)
      (fst (run (during_encrypt W) s1)) = (s2, c2, f2)" by (metis prod_cases3)
  obtain s3 c3 f3 where n: "submit_after_send ctx (send_answer W) (fst (run (during_send W) s2))
      = (s3, c3, f3)" by (metis prod_cases3)
  obtain s4 c4 f4 where w: "submit_after_wait P (time_at_refresh W) ctx (wait_answer W)
      (fst (run (during_wait W) s3)) = (s4, c4, f4)" by (metis prod_cases3)
  show ?thesis
  proof (cases f1)
    case (Some f)
    with assms d submit_after_delay_released [of ctx _ _ s1 c1 f] show ?thesis
      by (simp add: submitCore_def)
  next
    case None
    note f1 = this
    show ?thesis
    proof (cases f2)
      case (Some f)
      with assms d f1 e submit_after_encrypt_released [of _ ctx _ _ s2 c2 f] show ?thesis
        by (simp add: submitCore_def)
    next
      case None
      note f2 = this
      show ?thesis
      proof (cases f3)
        case (Some f)
        with assms d f1 e f2 n submit_after_send_released [of ctx _ _ s3 c3 f] show ?thesis
          by (simp add: submitCore_def)
      next
        case None
        with assms d f1 e f2 n w submit_after_wait_released [of P _ ctx _ _ s4 c4 f4] show ?thesis
          by (cases f4) (simp_all add: submitCore_def)
      qed
    qed
  qed
qed

text \<open>
  C8. \<open>submitCore\<close> fails with \<open>AlreadyInProgress\<close>, leaving the state as it is, whenever a
  refresh or a submit is in flight; otherwise it fails with \<open>NotReady\<close>, leaving the state
  as it is, when the ledger address, the FHEVM instance or the signer is missing; and once
  it has passed these guards and taken the submit lock, the lock is released when the call
  ends, whatever the external calls answer, whatever runs in between and whether the call
  fails or succeeds.
\<close>

theorem submit_guards_and_release:
  "(isRefreshingRef s \<or> isSubmittingRef s \<longrightarrow> submitCore P pl W s = (s, Inl AlreadyInProgress))
   \<and> (\<not> isRefreshingRef s \<and> \<not> isSubmittingRef s \<and> \<not> ready P \<longrightarrow>
        submitCore P pl W s = (s, Inl NotReady))
   \<and> (\<not> isRefreshingRef s \<and> \<not> isSubmittingRef s \<and> ready P \<longrightarrow>
        isSubmittingRef (fst (submit_guards P pl s))
        \<and> \<not> isSubmittingRef (fst (submitCore P pl W s))
        \<and> \<not> isSubmitting (fst (submitCore P pl W s)))"
proof (intro conjI impI)
  assume "isRefreshingRef s \<or> isSubmittingRef s"
  then show "submitCore P pl W s = (s, Inl AlreadyInProgress)"
    by (auto simp: submitCore_def submit_guards_def)
next
  assume "\<not> isRefreshingRef s \<and> \<not> isSubmittingRef s \<and> \<not> ready P"
  then show "submitCore P pl W s = (s, Inl NotReady)"
    by (simp add: submitCore_def submit_guards_def)
next
  assume a: "\<not> isRefreshingRef s \<and> \<not> isSubmittingRef s \<and> ready P"
  then obtain s0 calls ctx where g: "submit_guards P pl s = (s0, calls, Inr ctx)"
    by (simp add: submit_guards_def)
  from a show "isSubmittingRef (fst (submit_guards P pl s))"
    by (simp add: submit_guards_def)
  from submitCore_released [OF g]
  show "\<not> isSubmittingRef (fst (submitCore P pl W s))"
    and "\<not> isSubmitting (fst (submitCore P pl W s))" by simp_all
qed

theorem submit_guards_and_release_witness:
  "isRefreshingRef refreshing_coord
   \<and> submitCore paramsA demo_payload demo_submit_world refreshing_coord
       = (refreshing_coord, Inl AlreadyInProgress)
   \<and> \<not> isRefreshingRef initial_coord \<and> \<not> isSubmittingRef initial_coord \<and> \<not> ready paramsLoading
   \<and> submitCore paramsLoading demo_payload demo_submit_world initial_coord
       = (initial_coord, Inl NotReady)
   \<and> ready paramsA
   \<and> snd (submitCore paramsA demo_payload demo_submit_world (render paramsA initial_coord))
       = Inl Stale
   \<and> \<not> isSubmittingRef
         (fst (submitCore paramsA demo_payload demo_submit_world (render paramsA initial_coord)))"
proof -
  let ?s = "render paramsA initial_coord"
  have i: "\<not> isRefreshingRef initial_coord" "\<not> isSubmittingRef initial_coord"
    by (simp_all add: initial_coord_def)
  have r: "\<not> isRefreshingRef ?s" "\<not> isSubmittingRef ?s"
    by (simp_all add: initial_coord_def render_def)
  have fl: "isRefreshingRef refreshing_coord" using refreshing_coord_flags by simp
  from submit_guards_and_release [of refreshing_coord paramsA demo_payload demo_submit_world] fl
  have a: "submitCore paramsA demo_payload demo_submit_world refreshing_coord
       = (refreshing_coord, Inl AlreadyInProgress)" by blast
  from submit_guards_and_release [of initial_coord paramsLoading demo_payload demo_submit_world]
    i not_ready_paramsLoading
  have b: "submitCore paramsLoading demo_payload demo_submit_world initial_coord
       = (initial_coord, Inl NotReady)" by blast
  from submit_guards_and_release [of ?s paramsA demo_payload demo_submit_world] r ready_paramsA
  have c: "\<not> isSubmittingRef (fst (submitCore paramsA demo_payload demo_submit_world ?s))"
    by blast
  have d: "snd (submitCore paramsA demo_payload demo_submit_world ?s) = Inl Stale"
    by (simp add: submitCore_def submit_guards_def submit_after_delay_def
          submit_after_encrypt_def submit_isStale_def submit_fail_def demo_submit_world_def
          ready_def coord_eval)
  from fl a i not_ready_paramsLoading b ready_paramsA d c show ?thesis by blast
qed

text \<open>
  C10. \<open>decryptHandle\<close> returns the state it was given, whatever the handle and the
  answers; its calls and its result do not depend on the state (no lock is tested or
  taken, no staleness is checked); when the ledger address, the FHEVM instance and the
  signer are present it requests a capability for the signer first, for every handle, the
  zero handle included; and it returns \<open>res[handle]\<close> exactly when both external calls
  answer, and throws otherwise.
\<close>

theorem decryptHandle_frame:
  "fst (decryptHandle P h force sa da s) = s
   \<and> snd (decryptHandle P h force sa da s) = snd (decryptHandle P h force sa da s')
   \<and> (ready P \<longrightarrow>
        (\<exists>rest. fst (snd (decryptHandle P h force sa da s)) =
           LoadOrSign (the (c_address (contract P))) (the (ethersSigner P)) force # rest))
   \<and> (ready P \<and> sa = Inr (Some sg) \<and> da = Inr res \<longrightarrow>
        snd (snd (decryptHandle P h force sa da s)) = Inr (res h))
   \<and> ((\<exists>v. snd (snd (decryptHandle P h force sa da s)) = Inr v) \<longrightarrow>
        ready P \<and> (\<exists>sg. sa = Inr (Some sg)) \<and> (\<exists>res. da = Inr res))"
  by (auto simp: decryptHandle_def Let_def split: sum.splits option.splits)

theorem decryptHandle_frame_witness:
  "ready paramsA \<and> isZeroHandle ''0x0000''
   \<and> isRefreshingRef refreshing_coord
   \<and> fst (decryptHandle paramsA ''0x0000'' False (Inr (Some demo_capability))
            (Inr demo_decryption) refreshing_coord) = refreshing_coord
   \<and> (\<exists>rest. fst (snd (decryptHandle paramsA ''0x0000'' False (Inr (Some demo_capability))
            (Inr demo_decryption) refreshing_coord)) =
          LoadOrSign (the (c_address (contract paramsA))) (the (ethersSigner paramsA)) False # rest)
   \<and> snd (snd (decryptHandle paramsA ''0x0000'' False (Inr (Some demo_capability))
            (Inr demo_decryption) refreshing_coord)) = Inr (Some 0)"
proof -
  note t = decryptHandle_frame [of paramsA "''0x0000''" False "Inr (Some demo_capability)"
      "Inr demo_decryption" refreshing_coord refreshing_coord demo_capability demo_decryption]
  have z: "isZeroHandle ''0x0000''" by simp
  have fl: "isRefreshingRef refreshing_coord" using refreshing_coord_flags by simp
  from t have a: "fst (decryptHandle paramsA ''0x0000'' False (Inr (Some demo_capability))
            (Inr demo_decryption) refreshing_coord) = refreshing_coord" by blast
  from t ready_paramsA have b: "\<exists>rest. fst (snd (decryptHandle paramsA ''0x0000'' False
            (Inr (Some demo_capability)) (Inr demo_decryption) refreshing_coord)) =
          LoadOrSign (the (c_address (contract paramsA))) (the (ethersSigner paramsA)) False # rest"
    by blast
  from t ready_paramsA have "snd (snd (decryptHandle paramsA ''0x0000'' False
            (Inr (Some demo_capability)) (Inr demo_decryption) refreshing_coord))
          = Inr (demo_decryption ''0x0000'')" by blast
  then have c: "snd (snd (decryptHandle paramsA ''0x0000'' False
            (Inr (Some demo_capability)) (Inr demo_decryption) refreshing_coord)) = Inr (Some 0)"
    by (simp add: demo_decryption_def)
  from ready_paramsA z fl a b c show ?thesis by blast
qed

end
